theory Spec2Isabelle
  imports Main "HOL-Library.Sublist" "HOL-Library.Word"
begin

section \<open>The icon build script \<^verbatim>\<open>scripts/branding/build-icons.py\<close>\<close>

text \<open>
  The script copies a master PNG to two places, samples the rounded-corner mask of native
  macOS applications with \<^verbatim>\<open>iconutil\<close>, composites the master through that mask and
  saves the result as PNG, ICO and ICNS.  Its own logic is sequential file handling, two
  fallback loops over candidate bundles and one geometric step
  (\<^verbatim>\<open>reshape_mask_to_bbox\<close>).  Everything the script obtains from outside (the platform,
  the candidate bundles, what \<^verbatim>\<open>iconutil\<close> extracts, Pillow's decoders, resampling
  filters and encoders) is a field of the record \<open>world\<close>; everything the script changes
  (project files, directories, temporary directories, subprocess calls, printed lines) is a
  field of the record \<open>state\<close>, passed through every function and returned updated.
  Exceptions are values: a function that can raise returns \<open>error + 'a\<close>.
\<close>

subsection \<open>Errors, bytes, strings\<close>

type_synonym bytes = "8 word list"

text \<open>The exception classes the script raises or can receive from the calls it makes.\<close>

datatype error =
    RuntimeError string
  | SystemExit string
  | OSError string
  | FileNotFoundError string
  | SameFileError string
  | ValueError string
  | IndexError string
  | ZeroDivisionError string

text \<open>\<^verbatim>\<open>except OSError\<close> also catches the subclasses of \<^verbatim>\<open>OSError\<close>.\<close>

fun is_OSError :: "error \<Rightarrow> bool" where
  "is_OSError (OSError m) = True"
| "is_OSError (FileNotFoundError m) = True"
| "is_OSError (SameFileError m) = True"
| "is_OSError e = False"

text \<open>
  \<^verbatim>\<open>subprocess.CalledProcessError\<close> with the two captured streams
  (\<^verbatim>\<open>capture_output=True, text=True\<close>).
\<close>

record called_process_error =
  cpe_stderr :: string
  cpe_stdout :: string

text \<open>\<^verbatim>\<open>sep.join(xs)\<close>.\<close>

fun join :: "string \<Rightarrow> string list \<Rightarrow> string" where
  "join sep [] = []"
| "join sep [x] = x"
| "join sep (x # y # ys) = x @ sep @ join sep (y # ys)"

text \<open>
  \<^verbatim>\<open>str.strip()\<close>.  A \<open>char\<close> stands for a code point below 256; among those Python
  counts as whitespace the space, U+0009 to U+000D, U+001C to U+001F, U+0085 and U+00A0.
\<close>

definition is_space :: "char \<Rightarrow> bool" where
  "is_space c = (c \<in> set [CHR '' '', CHR 0x09, CHR 0x0A, CHR 0x0B, CHR 0x0C, CHR 0x0D,
                            CHR 0x1C, CHR 0x1D, CHR 0x1E, CHR 0x1F, CHR 0x85, CHR 0xA0])"

definition strip :: "string \<Rightarrow> string" where
  "strip s = rev (dropWhile is_space (rev (dropWhile is_space s)))"

text \<open>\<^verbatim>\<open>str(n)\<close> for integers, and the \<^verbatim>\<open>repr\<close> of a 4-tuple of integers.\<close>

definition digit_char :: "nat \<Rightarrow> char" where
  "digit_char n = char_of (48 + n)"

fun str_nat :: "nat \<Rightarrow> string" where
  "str_nat n = (if n < 10 then [digit_char n] else str_nat (n div 10) @ [digit_char (n mod 10)])"

definition str_int :: "int \<Rightarrow> string" where
  "str_int i = (if i < 0 then CHR ''-'' # str_nat (nat (- i)) else str_nat (nat i))"

type_synonym bbox = "int \<times> int \<times> int \<times> int"

fun str_bbox :: "bbox \<Rightarrow> string" where
  "str_bbox (x0, y0, x1, y1) =
     ''('' @ str_int x0 @ '', '' @ str_int y0 @ '', '' @ str_int x1 @ '', '' @ str_int y1 @ '')''"

subsection \<open>Images\<close>

text \<open>
  A Pillow image: its mode string, its size and its pixels.  Only the pixels at
  \<open>0 \<le> x < im_width\<close>, \<open>0 \<le> y < im_height\<close> belong to the image.  A mask (mode
  \<^verbatim>\<open>L\<close>) has pixels in \<open>nat\<close>, an \<^verbatim>\<open>RGBA\<close> image has four bands.
\<close>

record 'p image =
  im_mode :: string
  im_width :: nat
  im_height :: nat
  im_pix :: "int \<Rightarrow> int \<Rightarrow> 'p"

type_synonym rgba = "nat \<times> nat \<times> nat \<times> nat"

text \<open>\<^verbatim>\<open>Image.new(mode, size, color)\<close>.\<close>

definition Image_new :: "string \<Rightarrow> nat \<times> nat \<Rightarrow> 'p \<Rightarrow> 'p image" where
  "Image_new m sz color =
     \<lparr>im_mode = m, im_width = fst sz, im_height = snd sz, im_pix = (\<lambda>x y. color)\<rparr>"

text \<open>
  \<^verbatim>\<open>Image.getbbox()\<close>: the bounding box \<open>(left, upper, right, lower)\<close> of the non-zero
  pixels, right and lower exclusive, or \<open>None\<close> when every pixel is zero.
\<close>

definition nonzero_columns :: "nat image \<Rightarrow> nat list" where
  "nonzero_columns im =
     filter (\<lambda>x. list_ex (\<lambda>y. im_pix im (int x) (int y) \<noteq> 0) [0..<im_height im])
       [0..<im_width im]"

definition nonzero_rows :: "nat image \<Rightarrow> nat list" where
  "nonzero_rows im =
     filter (\<lambda>y. list_ex (\<lambda>x. im_pix im (int x) (int y) \<noteq> 0) [0..<im_width im])
       [0..<im_height im]"

definition getbbox :: "nat image \<Rightarrow> bbox option" where
  "getbbox im =
     (let cols = nonzero_columns im; rows = nonzero_rows im
      in if cols = [] \<or> rows = [] then None
         else Some (int (hd cols), int (hd rows), int (last cols) + 1, int (last rows) + 1))"

text \<open>\<^verbatim>\<open>Image.crop(box)\<close>.\<close>

fun crop :: "'p image \<Rightarrow> bbox \<Rightarrow> 'p image" where
  "crop im (x0, y0, x1, y1) =
     \<lparr>im_mode = im_mode im, im_width = nat (x1 - x0), im_height = nat (y1 - y0),
      im_pix = (\<lambda>x y. im_pix im (x + x0) (y + y0))\<rparr>"

text \<open>
  \<^verbatim>\<open>Image.paste(im, (x, y))\<close>: the pixels of \<open>src\<close> replace those of \<open>dst\<close> in the box of
  the size of \<open>src\<close> at the offset; what falls outside \<open>dst\<close> is clipped.
\<close>

fun paste :: "'p image \<Rightarrow> 'p image \<Rightarrow> int \<times> int \<Rightarrow> 'p image" where
  "paste dst src (x0, y0) =
     dst\<lparr>im_pix := (\<lambda>x y.
       if x0 \<le> x \<and> x < x0 + int (im_width src) \<and> y0 \<le> y \<and> y < y0 + int (im_height src)
       then im_pix src (x - x0) (y - y0) else im_pix dst x y)\<rparr>"

text \<open>
  \<^verbatim>\<open>Image.getpixel((x, y))\<close>: a negative coordinate counts from the far edge, and a
  coordinate outside the image raises \<^verbatim>\<open>IndexError\<close>.
\<close>

fun getpixel :: "'p image \<Rightarrow> int \<times> int \<Rightarrow> error + 'p" where
  "getpixel im (x, y) =
     (let x' = (if x < 0 then int (im_width im) + x else x);
          y' = (if y < 0 then int (im_height im) + y else y)
      in if x' < 0 \<or> int (im_width im) \<le> x' \<or> y' < 0 \<or> int (im_height im) \<le> y'
         then Inl (IndexError ''image index out of range'')
         else Inr (im_pix im x' y'))"

text \<open>\<^verbatim>\<open>Image.convert('RGBA')\<close>, with the conversion of one pixel of the image's mode.\<close>

definition convert_RGBA :: "('p \<Rightarrow> rgba) \<Rightarrow> 'p image \<Rightarrow> rgba image" where
  "convert_RGBA to_rgba im =
     \<lparr>im_mode = ''RGBA'', im_width = im_width im, im_height = im_height im,
      im_pix = (\<lambda>x y. to_rgba (im_pix im x y))\<rparr>"

subsection \<open>The world outside the script\<close>

text \<open>
  What a run reads from its machine and from Pillow.  None of it is code of the script,
  so it is a parameter of every theorem:
  \<^item> \<open>ROOT_DIR\<close>: the repository root, \<^verbatim>\<open>Path(__file__).resolve().parents[2]\<close>;
  \<^item> \<open>sys_platform\<close>, \<open>which_iconutil\<close>: \<^verbatim>\<open>sys.platform\<close> and
    \<^verbatim>\<open>shutil.which('iconutil')\<close>;
  \<^item> \<open>path_exists\<close>: \<^verbatim>\<open>Path.exists()\<close> on a candidate bundle file;
  \<^item> \<open>temp_name prefix n\<close>: the name \<^verbatim>\<open>tempfile\<close> gives the \<open>n\<close>-th temporary directory;
  \<^item> \<open>iconutil tool input icon\<close>: the run of \<^verbatim>\<open>iconutil -c iconset input [icon] -o dir\<close>
    with \<^verbatim>\<open>check=True\<close>: a \<^verbatim>\<open>CalledProcessError\<close>, or the files (name and contents)
    found in \<^verbatim>\<open>dir\<close> afterwards.  What is extracted is taken not to depend on the name of
    the output directory;
  \<^item> \<open>open_size\<close>: \<^verbatim>\<open>Image.open(path).size\<close> on a file's contents;
  \<^item> \<open>open_alpha\<close>: \<^verbatim>\<open>Image.open(path).convert('RGBA').getchannel('A')\<close>;
  \<^item> \<open>open_rgba\<close>: \<^verbatim>\<open>Image.open(path).convert('RGBA')\<close>;
  \<^item> \<open>resize_lanczos\<close>, \<open>fit_lanczos\<close>: the pixels that \<^verbatim>\<open>Image.resize\<close> and
    \<^verbatim>\<open>ImageOps.fit\<close> compute with the Lanczos filter (floating point);
  \<^item> \<open>paste_blend dst src m\<close>: the pixel \<^verbatim>\<open>paste\<close> writes through a mask value \<open>m\<close>;
  \<^item> \<open>save_png\<close>, \<open>save_ico\<close>, \<open>save_icns\<close>: the bytes \<^verbatim>\<open>Image.save\<close> writes.
\<close>

record world =
  ROOT_DIR :: string
  sys_platform :: string
  which_iconutil :: "string option"
  path_exists :: "string \<Rightarrow> bool"
  temp_name :: "string \<Rightarrow> nat \<Rightarrow> string"
  iconutil :: "string \<Rightarrow> string \<Rightarrow> string option \<Rightarrow> called_process_error + (string \<times> bytes) list"
  open_size :: "bytes \<Rightarrow> error + nat \<times> nat"
  open_alpha :: "bytes \<Rightarrow> error + nat image"
  open_rgba :: "bytes \<Rightarrow> error + rgba image"
  resize_lanczos :: "nat image \<Rightarrow> nat \<times> nat \<Rightarrow> int \<Rightarrow> int \<Rightarrow> nat"
  fit_lanczos :: "rgba image \<Rightarrow> nat \<times> nat \<Rightarrow> error + (int \<Rightarrow> int \<Rightarrow> rgba)"
  paste_blend :: "rgba \<Rightarrow> rgba \<Rightarrow> nat \<Rightarrow> rgba"
  save_png :: "rgba image \<Rightarrow> bytes"
  save_ico :: "rgba image \<Rightarrow> (nat \<times> nat) list \<Rightarrow> bytes"
  save_icns :: "rgba image \<Rightarrow> bytes"

text \<open>
  \<^verbatim>\<open>Image.resize(size, LANCZOS)\<close> and \<^verbatim>\<open>ImageOps.fit(image, size, method=LANCZOS)\<close>
  return an image of the requested size and of the mode of their argument.
\<close>

definition resize :: "world \<Rightarrow> nat image \<Rightarrow> nat \<times> nat \<Rightarrow> nat image" where
  "resize w im sz =
     \<lparr>im_mode = im_mode im, im_width = fst sz, im_height = snd sz,
      im_pix = resize_lanczos w im sz\<rparr>"

definition ImageOps_fit :: "world \<Rightarrow> rgba image \<Rightarrow> nat \<times> nat \<Rightarrow> error + rgba image" where
  "ImageOps_fit w im sz =
     (case fit_lanczos w im sz of
        Inl e \<Rightarrow> Inl e
      | Inr px \<Rightarrow> Inr \<lparr>im_mode = im_mode im, im_width = fst sz, im_height = snd sz, im_pix = px\<rparr>)"

text \<open>
  \<^verbatim>\<open>Image.paste(im, (x, y), mask)\<close>: Pillow refuses a mask whose size is not that of
  \<open>src\<close> (\<^verbatim>\<open>ValueError: images do not match\<close>) and a single-band mask of a mode other
  than \<^verbatim>\<open>1\<close> and \<^verbatim>\<open>L\<close>.
\<close>

fun paste_mask ::
  "world \<Rightarrow> rgba image \<Rightarrow> rgba image \<Rightarrow> int \<times> int \<Rightarrow> nat image \<Rightarrow> error + rgba image" where
  "paste_mask w dst src (x0, y0) mask_im =
     (if (im_width mask_im, im_height mask_im) \<noteq> (im_width src, im_height src)
      then Inl (ValueError ''images do not match'')
      else if im_mode mask_im \<noteq> ''L'' \<and> im_mode mask_im \<noteq> ''1''
      then Inl (ValueError ''bad transparency mask'')
      else Inr (dst\<lparr>im_pix := (\<lambda>x y.
        if x0 \<le> x \<and> x < x0 + int (im_width src) \<and> y0 \<le> y \<and> y < y0 + int (im_height src)
        then (if im_mode mask_im = ''L''
              then paste_blend w (im_pix dst x y) (im_pix src (x - x0) (y - y0))
                     (im_pix mask_im (x - x0) (y - y0))
              else if im_pix mask_im (x - x0) (y - y0) \<noteq> 0 then im_pix src (x - x0) (y - y0)
              else im_pix dst x y)
        else im_pix dst x y)\<rparr>))"

subsection \<open>The state a run changes\<close>

text \<open>
  \<open>files\<close> holds the contents of the project's files (the master icon and the five
  outputs), \<open>dirs\<close> the directories created, \<open>temp_live\<close> the temporary directories that
  exist, \<open>temp_made\<close> how many were created so far, \<open>proc_log\<close> the command lines handed to
  \<^verbatim>\<open>subprocess.run\<close>, \<open>stdout\<close> the lines printed.
\<close>

record state =
  files :: "string \<Rightarrow> bytes option"
  dirs :: "string set"
  temp_live :: "string list"
  temp_made :: nat
  proc_log :: "string list list"
  stdout :: "string list"

text \<open>\<^verbatim>\<open>tempfile.TemporaryDirectory(prefix=...)\<close> and its \<^verbatim>\<open>cleanup()\<close>.\<close>

definition TemporaryDirectory :: "world \<Rightarrow> string \<Rightarrow> state \<Rightarrow> string \<times> state" where
  "TemporaryDirectory w pfx s =
     (let name = temp_name w pfx (temp_made s)
      in (name, s\<lparr>temp_live := name # temp_live s, temp_made := Suc (temp_made s)\<rparr>))"

definition cleanup :: "string \<Rightarrow> state \<Rightarrow> state" where
  "cleanup temp_dir s = s\<lparr>temp_live := remove1 temp_dir (temp_live s)\<rparr>"

text \<open>\<^verbatim>\<open>Path.mkdir(parents=True, exist_ok=True)\<close>.\<close>

definition mkdir :: "string \<Rightarrow> state \<Rightarrow> state" where
  "mkdir d s = s\<lparr>dirs := insert d (dirs s)\<rparr>"

text \<open>
  \<^verbatim>\<open>shutil.copyfile(src, dst)\<close>: fails when \<open>src\<close> does not exist (the same-file test
  answers no when it cannot stat a path, and opening \<open>src\<close> then raises), refuses to copy
  an existing file onto itself, and otherwise gives \<open>dst\<close> the bytes of \<open>src\<close>.
\<close>

definition copyfile :: "string \<Rightarrow> string \<Rightarrow> state \<Rightarrow> error + state" where
  "copyfile src dst s =
     (case files s src of
        None \<Rightarrow> Inl (FileNotFoundError src)
      | Some b \<Rightarrow>
          if src = dst then Inl (SameFileError src)
          else Inr (s\<lparr>files := (files s)(dst \<mapsto> b)\<rparr>))"

definition write_file :: "string \<Rightarrow> bytes \<Rightarrow> state \<Rightarrow> state" where
  "write_file p b s = s\<lparr>files := (files s)(p \<mapsto> b)\<rparr>"

definition print_line :: "string \<Rightarrow> state \<Rightarrow> state" where
  "print_line l s = s\<lparr>stdout := stdout s @ [l]\<rparr>"

subsection \<open>The constants of the script\<close>

definition SOURCE_ICON_PATH :: "world \<Rightarrow> string" where
  "SOURCE_ICON_PATH w = ROOT_DIR w @ ''/branding/source/app-icon.png''"

definition RENDERER_ICON_PATH :: "world \<Rightarrow> string" where
  "RENDERER_ICON_PATH w = ROOT_DIR w @ ''/src/renderer/public/branding/app-icon.png''"

definition DESKTOP_SOURCE_COPY_PATH :: "world \<Rightarrow> string" where
  "DESKTOP_SOURCE_COPY_PATH w = ROOT_DIR w @ ''/public/branding/app-icon.png''"

definition DESKTOP_ICON_PNG_PATH :: "world \<Rightarrow> string" where
  "DESKTOP_ICON_PNG_PATH w = ROOT_DIR w @ ''/public/branding/app-icon-desktop.png''"

definition DESKTOP_ICON_ICO_PATH :: "world \<Rightarrow> string" where
  "DESKTOP_ICON_ICO_PATH w = ROOT_DIR w @ ''/public/branding/icon.ico''"

definition DESKTOP_ICON_ICNS_PATH :: "world \<Rightarrow> string" where
  "DESKTOP_ICON_ICNS_PATH w = ROOT_DIR w @ ''/public/branding/icon.icns''"

definition ICONSET_SOURCE_ICON_NAME :: string where
  "ICONSET_SOURCE_ICON_NAME = ''AppIcon''"

definition ICONSET_SOURCE_PNG_NAME :: string where
  "ICONSET_SOURCE_PNG_NAME = ''icon_512x512@2x.png''"

definition ICON_CANVAS_SIZE :: nat where
  "ICON_CANVAS_SIZE = 1024"

definition MACOS_ICON_CAR_CANDIDATES :: "string list" where
  "MACOS_ICON_CAR_CANDIDATES =
     [''/System/Applications/App Store.app/Contents/Resources/Assets.car'',
      ''/System/Applications/Notes.app/Contents/Resources/Assets.car'',
      ''/System/Applications/Calendar.app/Contents/Resources/Assets.car'',
      ''/System/Applications/Music.app/Contents/Resources/Assets.car'',
      ''/System/Applications/Photos.app/Contents/Resources/Assets.car'']"

definition MACOS_ICON_ICNS_CANDIDATES :: "string list" where
  "MACOS_ICON_ICNS_CANDIDATES =
     [''/System/Applications/App Store.app/Contents/Resources/AppIcon.icns'',
      ''/System/Applications/Notes.app/Contents/Resources/AppIcon.icns'',
      ''/System/Applications/Music.app/Contents/Resources/AppIcon.icns'',
      ''/System/Applications/Photos.app/Contents/Resources/AppIcon.icns'',
      ''/System/Applications/Preview.app/Contents/Resources/AppIcon.icns'']"

text \<open>\<^verbatim>\<open>Path.parent\<close>: the path up to its last separator.\<close>

definition parent :: "string \<Rightarrow> string" where
  "parent p = rev (tl (dropWhile (\<lambda>c. c \<noteq> CHR ''/'') (rev p)))"

subsection \<open>\<^verbatim>\<open>build_desktop_icon_with_mask\<close>\<close>

text \<open>
  The source may be of any mode; \<open>to_rgba\<close> is the pixel conversion that
  \<^verbatim>\<open>source.convert('RGBA')\<close> applies for that mode.
\<close>

definition build_desktop_icon_with_mask ::
  "world \<Rightarrow> ('p \<Rightarrow> rgba) \<Rightarrow> 'p image \<Rightarrow> nat image \<Rightarrow> error + rgba image" where
  "build_desktop_icon_with_mask w to_rgba source mask_im =
     (case ImageOps_fit w (convert_RGBA to_rgba source) (ICON_CANVAS_SIZE, ICON_CANVAS_SIZE) of
        Inl e \<Rightarrow> Inl e
      | Inr icon_content \<Rightarrow>
          (let rounded_content =
                 Image_new ''RGBA'' (ICON_CANVAS_SIZE, ICON_CANVAS_SIZE) (0, 0, 0, 0)
           in paste_mask w rounded_content icon_content (0, 0) mask_im))"

subsection \<open>Extraction with \<^verbatim>\<open>iconutil\<close>\<close>

text \<open>
  Both extraction functions create the temporary directory first and run \<^verbatim>\<open>iconutil\<close>
  second.  When \<^verbatim>\<open>subprocess.run\<close> raises, the function is left without returning the
  directory's handle and without a call of \<^verbatim>\<open>cleanup()\<close>: the directory stays in
  \<open>temp_live\<close>.  (Python removes such a directory when it finalizes the unreachable
  handle; the state records what the script itself removes.)  On success the functions
  return the handle and the extracted iconset directory, here its listing.
\<close>

definition extract_iconset_from_assets_car ::
  "world \<Rightarrow> string \<Rightarrow> string \<Rightarrow> state
     \<Rightarrow> (called_process_error + string \<times> (string \<times> bytes) list) \<times> state" where
  "extract_iconset_from_assets_car w iconutil_path car_path s =
     (let (temp_dir, s1) = TemporaryDirectory w ''branding-icon-mask-car-'' s;
          iconset_dir = temp_dir @ ''/AppIcon.iconset'';
          extraction_command =
            [iconutil_path, ''-c'', ''iconset'', car_path, ICONSET_SOURCE_ICON_NAME,
             ''-o'', iconset_dir];
          s2 = s1\<lparr>proc_log := proc_log s1 @ [extraction_command]\<rparr>
      in case iconutil w iconutil_path car_path (Some ICONSET_SOURCE_ICON_NAME) of
           Inl exc \<Rightarrow> (Inl exc, s2)
         | Inr listing \<Rightarrow> (Inr (temp_dir, listing), s2))"

definition extract_iconset_from_icns ::
  "world \<Rightarrow> string \<Rightarrow> string \<Rightarrow> state
     \<Rightarrow> (called_process_error + string \<times> (string \<times> bytes) list) \<times> state" where
  "extract_iconset_from_icns w iconutil_path icns_path s =
     (let (temp_dir, s1) = TemporaryDirectory w ''branding-icon-mask-icns-'' s;
          iconset_dir = temp_dir @ ''/AppIcon.iconset'';
          extraction_command =
            [iconutil_path, ''-c'', ''iconset'', icns_path, ''-o'', iconset_dir];
          s2 = s1\<lparr>proc_log := proc_log s1 @ [extraction_command]\<rparr>
      in case iconutil w iconutil_path icns_path None of
           Inl exc \<Rightarrow> (Inl exc, s2)
         | Inr listing \<Rightarrow> (Inr (temp_dir, listing), s2))"

text \<open>
  \<^verbatim>\<open>(exc.stderr or exc.stdout or '').strip() or 'iconutil failed'\<close>: an empty string is
  false in Python.
\<close>

definition failure_reason :: "called_process_error \<Rightarrow> string" where
  "failure_reason exc =
     (let captured = (if cpe_stderr exc \<noteq> [] then cpe_stderr exc
                      else if cpe_stdout exc \<noteq> [] then cpe_stdout exc else [])
      in if strip captured \<noteq> [] then strip captured else ''iconutil failed'')"

text \<open>
  The three ways one turn of a candidate loop ends: \<^verbatim>\<open>continue\<close> after appending a
  message to \<^verbatim>\<open>extraction_errors\<close>, an exception that leaves the function, or
  \<^verbatim>\<open>return\<close>.
\<close>

datatype 'a attempt = Next_candidate string | Raise error | Return 'a

text \<open>\<^verbatim>\<open>'\n'.join(f'  - {message}' for message in extraction_errors)\<close>.\<close>

definition formatted_errors :: "string list \<Rightarrow> string" where
  "formatted_errors extraction_errors =
     join [CHR 0x0A] (map (\<lambda>message. ''  - '' @ message) extraction_errors)"

subsection \<open>\<^verbatim>\<open>load_macos_container_bbox\<close>\<close>

text \<open>
  The body of the loop for one candidate.  The \<^verbatim>\<open>finally\<close> clause runs on every way out
  of the second \<^verbatim>\<open>try\<close>, so \<open>cleanup\<close> is applied to the state whatever the result.
\<close>

definition load_macos_container_bbox_candidate ::
  "world \<Rightarrow> string \<Rightarrow> string \<Rightarrow> state \<Rightarrow> (bbox \<times> string) attempt \<times> state" where
  "load_macos_container_bbox_candidate w iconutil_path car_path s =
     (if \<not> path_exists w car_path then (Next_candidate (car_path @ '': missing''), s)
      else case extract_iconset_from_assets_car w iconutil_path car_path s of
        (Inl exc, s1) \<Rightarrow> (Next_candidate (car_path @ '': '' @ failure_reason exc), s1)
      | (Inr (temp_dir, iconset_dir), s1) \<Rightarrow>
          ((case map_of iconset_dir ICONSET_SOURCE_PNG_NAME of
              None \<Rightarrow> Next_candidate (car_path @ '': missing '' @ ICONSET_SOURCE_PNG_NAME)
            | Some mask_source \<Rightarrow>
                (case open_alpha w mask_source of
                   Inl e \<Rightarrow> Raise e
                 | Inr opened \<Rightarrow>
                     (let mask_im =
                            (if (im_width opened, im_height opened)
                                  \<noteq> (ICON_CANVAS_SIZE, ICON_CANVAS_SIZE)
                             then resize w opened (ICON_CANVAS_SIZE, ICON_CANVAS_SIZE)
                             else opened)
                      in case getbbox mask_im of
                           None \<Rightarrow>
                             Next_candidate (car_path @ '': extracted alpha mask is empty'')
                         | Some bbox \<Rightarrow> Return (bbox, car_path)))),
           cleanup temp_dir s1))"

fun load_macos_container_bbox_loop ::
  "world \<Rightarrow> string \<Rightarrow> string list \<Rightarrow> string list \<Rightarrow> state
     \<Rightarrow> (error + bbox \<times> string) \<times> state" where
  "load_macos_container_bbox_loop w iconutil_path [] extraction_errors s =
     (Inl (RuntimeError
        (''[branding] failed to extract macOS container bbox from native Assets.car files.''
          @ [CHR 0x0A] @ formatted_errors extraction_errors)), s)"
| "load_macos_container_bbox_loop w iconutil_path (car_path # rest) extraction_errors s =
     (case load_macos_container_bbox_candidate w iconutil_path car_path s of
        (Next_candidate message, s1) \<Rightarrow>
          load_macos_container_bbox_loop w iconutil_path rest (extraction_errors @ [message]) s1
      | (Raise e, s1) \<Rightarrow> (Inl e, s1)
      | (Return r, s1) \<Rightarrow> (Inr r, s1))"

definition load_macos_container_bbox ::
  "world \<Rightarrow> string \<Rightarrow> state \<Rightarrow> (error + bbox \<times> string) \<times> state" where
  "load_macos_container_bbox w iconutil_path s =
     load_macos_container_bbox_loop w iconutil_path MACOS_ICON_CAR_CANDIDATES [] s"

subsection \<open>\<^verbatim>\<open>select_largest_icon_png\<close> and \<^verbatim>\<open>load_macos_rounded_shape_mask\<close>\<close>

text \<open>\<^verbatim>\<open>iconset_dir.glob('*.png')\<close>, in the order the directory lists its entries.\<close>

definition glob_png :: "(string \<times> bytes) list \<Rightarrow> (string \<times> bytes) list" where
  "glob_png iconset_dir = filter (\<lambda>entry. suffix ''.png'' (fst entry)) iconset_dir"

text \<open>
  The loop of \<^verbatim>\<open>select_largest_icon_png\<close>.  \<^verbatim>\<open>except OSError: continue\<close> skips a file
  that cannot be opened; any other exception leaves the function.
\<close>

fun select_largest_icon_png_loop ::
  "world \<Rightarrow> (string \<times> bytes) list \<Rightarrow> (string \<times> bytes) option \<Rightarrow> int
     \<Rightarrow> error + (string \<times> bytes) option" where
  "select_largest_icon_png_loop w [] largest_path largest_area = Inr largest_path"
| "select_largest_icon_png_loop w (candidate # rest) largest_path largest_area =
     (case open_size w (snd candidate) of
        Inl e \<Rightarrow>
          if is_OSError e then select_largest_icon_png_loop w rest largest_path largest_area
          else Inl e
      | Inr (width, height) \<Rightarrow>
          (let area = int width * int height
           in if area > largest_area
              then select_largest_icon_png_loop w rest (Some candidate) area
              else select_largest_icon_png_loop w rest largest_path largest_area))"

definition select_largest_icon_png ::
  "world \<Rightarrow> (string \<times> bytes) list \<Rightarrow> error + (string \<times> bytes) option" where
  "select_largest_icon_png w iconset_dir =
     select_largest_icon_png_loop w (glob_png iconset_dir) None (- 1)"

definition load_macos_rounded_shape_mask_candidate ::
  "world \<Rightarrow> string \<Rightarrow> string \<Rightarrow> state \<Rightarrow> (nat image \<times> string) attempt \<times> state" where
  "load_macos_rounded_shape_mask_candidate w iconutil_path icns_path s =
     (if \<not> path_exists w icns_path then (Next_candidate (icns_path @ '': missing''), s)
      else case extract_iconset_from_icns w iconutil_path icns_path s of
        (Inl exc, s1) \<Rightarrow> (Next_candidate (icns_path @ '': '' @ failure_reason exc), s1)
      | (Inr (temp_dir, iconset_dir), s1) \<Rightarrow>
          ((case select_largest_icon_png w iconset_dir of
              Inl e \<Rightarrow> Raise e
            | Inr None \<Rightarrow>
                Next_candidate (icns_path @ '': no PNG images in extracted iconset'')
            | Inr (Some largest_png) \<Rightarrow>
                (case open_alpha w (snd largest_png) of
                   Inl e \<Rightarrow> Raise e
                 | Inr alpha \<Rightarrow>
                     (case getbbox alpha of
                        None \<Rightarrow>
                          Next_candidate (icns_path @ '': extracted alpha mask is empty'')
                      | Some bbox \<Rightarrow> Return (alpha, icns_path)))),
           cleanup temp_dir s1))"

fun load_macos_rounded_shape_mask_loop ::
  "world \<Rightarrow> string \<Rightarrow> string list \<Rightarrow> string list \<Rightarrow> state
     \<Rightarrow> (error + nat image \<times> string) \<times> state" where
  "load_macos_rounded_shape_mask_loop w iconutil_path [] extraction_errors s =
     (Inl (RuntimeError
        (''[branding] failed to extract macOS rounded icon shape from native AppIcon.icns files.''
          @ [CHR 0x0A] @ formatted_errors extraction_errors)), s)"
| "load_macos_rounded_shape_mask_loop w iconutil_path (icns_path # rest) extraction_errors s =
     (case load_macos_rounded_shape_mask_candidate w iconutil_path icns_path s of
        (Next_candidate message, s1) \<Rightarrow>
          load_macos_rounded_shape_mask_loop w iconutil_path rest
            (extraction_errors @ [message]) s1
      | (Raise e, s1) \<Rightarrow> (Inl e, s1)
      | (Return r, s1) \<Rightarrow> (Inr r, s1))"

definition load_macos_rounded_shape_mask ::
  "world \<Rightarrow> string \<Rightarrow> state \<Rightarrow> (error + nat image \<times> string) \<times> state" where
  "load_macos_rounded_shape_mask w iconutil_path s =
     load_macos_rounded_shape_mask_loop w iconutil_path MACOS_ICON_ICNS_CANDIDATES [] s"

subsection \<open>\<^verbatim>\<open>reshape_mask_to_bbox\<close> and \<^verbatim>\<open>load_macos_standard_mask\<close>\<close>

definition reshape_mask_to_bbox :: "world \<Rightarrow> nat image \<Rightarrow> bbox \<Rightarrow> error + nat image" where
  "reshape_mask_to_bbox w source_alpha target_bbox =
     (case getbbox source_alpha of
        None \<Rightarrow> Inl (RuntimeError ''[branding] source rounded alpha is empty'')
      | Some source_bbox \<Rightarrow>
          (let source_cropped = crop source_alpha source_bbox;
               (target_x0, target_y0, target_x1, target_y1) = target_bbox;
               target_width = target_x1 - target_x0;
               target_height = target_y1 - target_y0
           in if target_width \<le> 0 \<or> target_height \<le> 0
              then Inl (RuntimeError
                     (''[branding] invalid target bbox: '' @ str_bbox target_bbox))
              else
                (let resized_shape =
                       resize w source_cropped (nat target_width, nat target_height);
                     output_mask =
                       paste (Image_new ''L'' (ICON_CANVAS_SIZE, ICON_CANVAS_SIZE) 0)
                         resized_shape (target_x0, target_y0)
                 in case getpixel output_mask (target_x0, target_y0) of
                      Inl e \<Rightarrow> Inl e
                    | Inr corner \<Rightarrow>
                        if corner \<noteq> 0
                        then Inl (RuntimeError
                          ''[branding] rounded shape validation failed: corner is not transparent'')
                        else Inr output_mask)))"

definition load_macos_standard_mask ::
  "world \<Rightarrow> state \<Rightarrow> (error + nat image \<times> string \<times> string) \<times> state" where
  "load_macos_standard_mask w s =
     (if sys_platform w \<noteq> ''darwin''
      then (Inl (RuntimeError
              ''[branding] macOS standard icon mask extraction requires macOS.''), s)
      else case which_iconutil w of
        None \<Rightarrow>
          (Inl (RuntimeError
             ''[branding] iconutil is missing, cannot extract macOS standard icon mask.''), s)
      | Some iconutil_path \<Rightarrow>
          (case load_macos_container_bbox w iconutil_path s of
             (Inl e, s1) \<Rightarrow> (Inl e, s1)
           | (Inr (container_bbox, container_source), s1) \<Rightarrow>
               (case load_macos_rounded_shape_mask w iconutil_path s1 of
                  (Inl e, s2) \<Rightarrow> (Inl e, s2)
                | (Inr (rounded_shape_alpha, rounded_shape_source), s2) \<Rightarrow>
                    (case reshape_mask_to_bbox w rounded_shape_alpha container_bbox of
                       Inl e \<Rightarrow> (Inl e, s2)
                     | Inr mask_im \<Rightarrow>
                         (Inr (mask_im, container_source, rounded_shape_source), s2)))))"

subsection \<open>\<^verbatim>\<open>build_icons_from_source\<close> and \<^verbatim>\<open>main\<close>\<close>

text \<open>\<^verbatim>\<open>Image.open(source_path).convert('RGBA')\<close> on a file of the project.\<close>

definition open_source :: "world \<Rightarrow> string \<Rightarrow> state \<Rightarrow> error + rgba image" where
  "open_source w source_path s =
     (case files s source_path of
        None \<Rightarrow> Inl (FileNotFoundError source_path)
      | Some b \<Rightarrow> open_rgba w b)"

definition ICO_SIZES :: "(nat \<times> nat) list" where
  "ICO_SIZES = [(16, 16), (24, 24), (32, 32), (48, 48), (64, 64), (128, 128), (256, 256)]"

definition build_icons_from_source ::
  "world \<Rightarrow> string \<Rightarrow> state \<Rightarrow> (error + string \<times> string) \<times> state" where
  "build_icons_from_source w source_path s =
     (let s1 = mkdir (parent (RENDERER_ICON_PATH w)) s;
          s2 = mkdir (parent (DESKTOP_ICON_PNG_PATH w)) s1
      in case copyfile source_path (RENDERER_ICON_PATH w) s2 of
           Inl e \<Rightarrow> (Inl e, s2)
         | Inr s3 \<Rightarrow>
        (case copyfile source_path (DESKTOP_SOURCE_COPY_PATH w) s3 of
           Inl e \<Rightarrow> (Inl e, s3)
         | Inr s4 \<Rightarrow>
        (case open_source w source_path s4 of
           Inl e \<Rightarrow> (Inl e, s4)
         | Inr source \<Rightarrow>
        (case load_macos_standard_mask w s4 of
           (Inl e, s5) \<Rightarrow> (Inl e, s5)
         | (Inr (standard_mask, container_source, rounded_shape_source), s5) \<Rightarrow>
        (case build_desktop_icon_with_mask w (\<lambda>p. p) source standard_mask of
           Inl e \<Rightarrow> (Inl e, s5)
         | Inr rounded_desktop_icon \<Rightarrow>
             (let s6 = write_file (DESKTOP_ICON_PNG_PATH w) (save_png w rounded_desktop_icon) s5;
                  s7 = write_file (DESKTOP_ICON_ICO_PATH w)
                         (save_ico w rounded_desktop_icon ICO_SIZES) s6;
                  s8 = write_file (DESKTOP_ICON_ICNS_PATH w)
                         (save_icns w rounded_desktop_icon) s7
              in (Inr (container_source, rounded_shape_source), s8)))))))"

definition main :: "world \<Rightarrow> state \<Rightarrow> (error + unit) \<times> state" where
  "main w s =
     (if files s (SOURCE_ICON_PATH w) = None
      then (Inl (SystemExit (''[branding] source icon missing: '' @ SOURCE_ICON_PATH w)), s)
      else
        (let s1 = print_line (''[branding] using source icon: '' @ SOURCE_ICON_PATH w) s
         in case build_icons_from_source w (SOURCE_ICON_PATH w) s1 of
              (Inl e, s2) \<Rightarrow> (Inl e, s2)
            | (Inr (container_source, rounded_shape_source), s2) \<Rightarrow>
                (Inr (),
                 print_line (''[branding] macOS rounded-shape source: '' @ rounded_shape_source)
                 (print_line (''[branding] macOS container bbox source: '' @ container_source)
                 (print_line (''[branding] updated desktop icon icns: ''
                                @ DESKTOP_ICON_ICNS_PATH w)
                 (print_line (''[branding] updated desktop icon ico: ''
                                @ DESKTOP_ICON_ICO_PATH w)
                 (print_line (''[branding] updated desktop rounded icon png: ''
                                @ DESKTOP_ICON_PNG_PATH w)
                 (print_line (''[branding] updated desktop source copy png: ''
                                @ DESKTOP_SOURCE_COPY_PATH w)
                 (print_line (''[branding] updated renderer icon: '' @ RENDERER_ICON_PATH w)
                    s2)))))))))"

text \<open>The five files a run writes.\<close>

definition OUTPUT_PATHS :: "world \<Rightarrow> string list" where
  "OUTPUT_PATHS w =
     [RENDERER_ICON_PATH w, DESKTOP_SOURCE_COPY_PATH w, DESKTOP_ICON_PNG_PATH w,
      DESKTOP_ICON_ICO_PATH w, DESKTOP_ICON_ICNS_PATH w]"

text \<open>
  The state in which \<^verbatim>\<open>build_icons_from_source\<close> reaches its third statement when the
  source file holds \<open>b\<close>: both directories made, both copies written.
\<close>

definition copies_written :: "world \<Rightarrow> bytes \<Rightarrow> state \<Rightarrow> state" where
  "copies_written w b s =
     s\<lparr>files := (files s)(RENDERER_ICON_PATH w \<mapsto> b, DESKTOP_SOURCE_COPY_PATH w \<mapsto> b),
       dirs := insert (parent (DESKTOP_ICON_PNG_PATH w))
                 (insert (parent (RENDERER_ICON_PATH w)) (dirs s))\<rparr>"


section \<open>Example machines\<close>

text \<open>
  Concrete worlds on which the theorems below are exercised.  File contents are short byte
  strings; the example decoders map each of them to a small image or to an error, and the
  example resampling filter takes the nearest source pixel.
\<close>

definition plus_shape :: "nat image" where
  "plus_shape = \<lparr>im_mode = ''L'', im_width = 3, im_height = 3,
                  im_pix = (\<lambda>x y. if x = 1 \<or> y = 1 then 255 else 0)\<rparr>"

definition demo_open_alpha :: "bytes \<Rightarrow> error + nat image" where
  "demo_open_alpha b =
     (if b = [1] then Inr (Image_new ''L'' (1024, 1024) 255)
      else if b = [2] then Inr plus_shape
      else if b = [3] then Inr (Image_new ''L'' (2, 2) 0)
      else if b = [5] then Inr (Image_new ''L'' (2, 2) 255)
      else Inl (OSError ''cannot identify image file''))"

definition demo_open_size :: "bytes \<Rightarrow> error + nat \<times> nat" where
  "demo_open_size b =
     (if b = [1] then Inr (1024, 1024)
      else if b = [2] then Inr (3, 3)
      else if b = [3] \<or> b = [5] then Inr (2, 2)
      else Inl (OSError ''cannot identify image file''))"

definition master_bytes :: bytes where
  "master_bytes = [137, 80, 78, 71]"

definition demo_open_rgba :: "bytes \<Rightarrow> error + rgba image" where
  "demo_open_rgba b =
     (if b = master_bytes then Inr (Image_new ''RGBA'' (2, 2) (255, 0, 0, 255))
      else Inl (OSError ''cannot identify image file''))"

definition nearest :: "'p image \<Rightarrow> nat \<times> nat \<Rightarrow> int \<Rightarrow> int \<Rightarrow> 'p" where
  "nearest im sz x y =
     im_pix im (x * int (im_width im) div int (fst sz)) (y * int (im_height im) div int (snd sz))"

definition demo_icns_listing :: "(string \<times> bytes) list" where
  "demo_icns_listing =
     [(''icon_16x16.png'', [3]), (''broken.png'', [9]), (''icon_32x32.png'', [2]),
      (''Info.txt'', [0])]"

definition demo_iconutil ::
  "string \<Rightarrow> string \<Rightarrow> string option \<Rightarrow> called_process_error + (string \<times> bytes) list" where
  "demo_iconutil tool input icon =
     (case icon of
        Some n \<Rightarrow> Inr [(''icon_512x512@2x.png'', [1])]
      | None \<Rightarrow> Inr demo_icns_listing)"

text \<open>A Mac on which every candidate bundle exists and extracts.\<close>

definition mac_world :: world where
  "mac_world =
     \<lparr>ROOT_DIR = ''/repo'', sys_platform = ''darwin'',
      which_iconutil = Some ''/usr/bin/iconutil'', path_exists = (\<lambda>p. True),
      temp_name = (\<lambda>pfx n. ''/tmp/'' @ pfx @ str_nat n), iconutil = demo_iconutil,
      open_size = demo_open_size, open_alpha = demo_open_alpha, open_rgba = demo_open_rgba,
      resize_lanczos = nearest,
      fit_lanczos = (\<lambda>im sz. if im_height im = 0
                               then Inl (ZeroDivisionError ''division by zero'')
                               else Inr (nearest im sz)),
      paste_blend = (\<lambda>d s m. if m = 0 then d else s),
      save_png = (\<lambda>im. [1]), save_ico = (\<lambda>im sizes. [2]), save_icns = (\<lambda>im. [3])\<rparr>"

text \<open>The same machine reporting another platform.\<close>

definition linux_world :: world where
  "linux_world = mac_world\<lparr>sys_platform := ''linux''\<rparr>"



text \<open>A Mac whose icon files hold a square shape: its corner is opaque.\<close>

definition square_shape_world :: world where
  "square_shape_world =
     mac_world\<lparr>iconutil := (\<lambda>tool input icon.
        case icon of Some n \<Rightarrow> Inr [(''icon_512x512@2x.png'', [1])]
                   | None \<Rightarrow> Inr [(''icon_16x16.png'', [5])])\<rparr>"

text \<open>A Mac whose first bundle of either list extracts a fully transparent image.\<close>

definition empty_first_world :: world where
  "empty_first_world =
     mac_world\<lparr>iconutil := (\<lambda>tool input icon.
        if input = hd MACOS_ICON_CAR_CANDIDATES then Inr [(''icon_512x512@2x.png'', [3])]
        else if input = hd MACOS_ICON_ICNS_CANDIDATES then Inr [(''icon_16x16.png'', [3])]
        else demo_iconutil tool input icon)\<rparr>"


text \<open>A Mac whose PNG files open but cannot be decoded.\<close>

definition broken_png_world :: world where
  "broken_png_world =
     mac_world\<lparr>open_alpha := (\<lambda>b. Inl (OSError ''image file is truncated''))\<rparr>"


text \<open>The project before a run: only the master icon exists.\<close>

definition fresh_state :: state where
  "fresh_state =
     \<lparr>files = [''/repo/branding/source/app-icon.png'' \<mapsto> master_bytes], dirs = {},
      temp_live = [], temp_made = 0, proc_log = [], stdout = []\<rparr>"

text \<open>The project after an earlier build: the five outputs hold older bytes.\<close>

definition stale_state :: state where
  "stale_state =
     \<lparr>files = [''/repo/branding/source/app-icon.png'' \<mapsto> master_bytes,
               ''/repo/src/renderer/public/branding/app-icon.png'' \<mapsto> [7],
               ''/repo/public/branding/app-icon.png'' \<mapsto> [7],
               ''/repo/public/branding/app-icon-desktop.png'' \<mapsto> [8],
               ''/repo/public/branding/icon.ico'' \<mapsto> [8],
               ''/repo/public/branding/icon.icns'' \<mapsto> [8]],
      dirs = {''/repo/public/branding''}, temp_live = [], temp_made = 4, proc_log = [],
      stdout = []\<rparr>"

section \<open>Properties\<close>

subsection \<open>Auxiliary facts\<close>

lemma mac_world_fields:
  "ROOT_DIR mac_world = ''/repo''"
  "sys_platform mac_world = ''darwin''"
  "which_iconutil mac_world = Some ''/usr/bin/iconutil''"
  "path_exists mac_world = (\<lambda>p. True)"
  "temp_name mac_world = (\<lambda>pfx n. ''/tmp/'' @ pfx @ str_nat n)"
  "iconutil mac_world = demo_iconutil"
  "open_size mac_world = demo_open_size"
  "open_alpha mac_world = demo_open_alpha"
  "open_rgba mac_world = demo_open_rgba"
  "resize_lanczos mac_world = nearest"
  "fit_lanczos mac_world = (\<lambda>im sz. if im_height im = 0
                               then Inl (ZeroDivisionError ''division by zero'')
                               else Inr (nearest im sz))"
  "paste_blend mac_world = (\<lambda>d s m. if m = 0 then d else s)"
  "save_png mac_world = (\<lambda>im. [1])"
  "save_ico mac_world = (\<lambda>im sizes. [2])"
  "save_icns mac_world = (\<lambda>im. [3])"
  by (simp_all add: mac_world_def)

lemma paste_mask_size:
  "paste_mask w dst src off m = Inr out \<Longrightarrow>
     im_mode out = im_mode dst \<and> im_width out = im_width dst \<and> im_height out = im_height dst"
  by (cases off) (auto split: if_splits)

lemma build_desktop_icon_with_mask_returns:
  assumes "fit_lanczos w (convert_RGBA to_rgba source) (ICON_CANVAS_SIZE, ICON_CANVAS_SIZE)
             = Inr px"
      and "im_mode mask_im = ''L''" "im_width mask_im = 1024" "im_height mask_im = 1024"
  shows "\<exists>out. build_desktop_icon_with_mask w to_rgba source mask_im = Inr out"
  using assms
  by (simp add: build_desktop_icon_with_mask_def ImageOps_fit_def ICON_CANVAS_SIZE_def Let_def)

subsection \<open>The composited icon has the canvas size\<close>

text \<open>
  C3.  Whatever the source image (any mode, any dimensions) and whatever the resampling
  filter computes, an icon returned by \<^verbatim>\<open>build_desktop_icon_with_mask\<close> is an
  \<^verbatim>\<open>RGBA\<close> image of 1024 by 1024 pixels; and the function does return one whenever
  \<^verbatim>\<open>ImageOps.fit\<close> succeeds on the source and the mask is an \<^verbatim>\<open>L\<close> image of that size.
\<close>

theorem build_desktop_icon_with_mask_canvas:
  "(\<forall>out. build_desktop_icon_with_mask w to_rgba source mask_im = Inr out \<longrightarrow>
      im_mode out = ''RGBA'' \<and> im_width out = 1024 \<and> im_height out = 1024)
   \<and> (\<forall>px. fit_lanczos w (convert_RGBA to_rgba source) (ICON_CANVAS_SIZE, ICON_CANVAS_SIZE)
             = Inr px
          \<and> im_mode mask_im = ''L'' \<and> im_width mask_im = 1024 \<and> im_height mask_im = 1024 \<longrightarrow>
        (\<exists>out. build_desktop_icon_with_mask w to_rgba source mask_im = Inr out))"
proof (rule conjI; rule allI; rule impI)
  fix out
  assume r: "build_desktop_icon_with_mask w to_rgba source mask_im = Inr out"
  then obtain icon where
    "paste_mask w (Image_new ''RGBA'' (ICON_CANVAS_SIZE, ICON_CANVAS_SIZE) (0, 0, 0, 0))
       icon (0, 0) mask_im = Inr out"
    unfolding build_desktop_icon_with_mask_def Let_def
    by (cases "ImageOps_fit w (convert_RGBA to_rgba source) (ICON_CANVAS_SIZE, ICON_CANVAS_SIZE)")
       (simp_all del: paste_mask.simps)
  from paste_mask_size [OF this]
  show "im_mode out = ''RGBA'' \<and> im_width out = 1024 \<and> im_height out = 1024"
    by (simp add: Image_new_def ICON_CANVAS_SIZE_def)
next
  fix px
  assume "fit_lanczos w (convert_RGBA to_rgba source) (ICON_CANVAS_SIZE, ICON_CANVAS_SIZE)
            = Inr px
          \<and> im_mode mask_im = ''L'' \<and> im_width mask_im = 1024 \<and> im_height mask_im = 1024"
  then show "\<exists>out. build_desktop_icon_with_mask w to_rgba source mask_im = Inr out"
    by (simp add: build_desktop_icon_with_mask_def ImageOps_fit_def ICON_CANVAS_SIZE_def Let_def)
qed

theorem build_desktop_icon_with_mask_canvas_witness:
  "(\<exists>out. build_desktop_icon_with_mask mac_world (\<lambda>p. p)
            (Image_new ''RGBA'' (2, 3) (255, 0, 0, 255)) (Image_new ''L'' (1024, 1024) 255) = Inr out
          \<and> im_mode out = ''RGBA'' \<and> im_width out = 1024 \<and> im_height out = 1024)
   \<and> (\<exists>out. build_desktop_icon_with_mask mac_world (\<lambda>p. p)
            (Image_new ''RGBA'' (4000, 3000) (255, 0, 0, 255)) (Image_new ''L'' (1024, 1024) 255) = Inr out
          \<and> im_mode out = ''RGBA'' \<and> im_width out = 1024 \<and> im_height out = 1024)"
proof -
  have small: "fit_lanczos mac_world (convert_RGBA (\<lambda>p. p) (Image_new ''RGBA'' (2, 3) (255, 0, 0, 255)))
      (ICON_CANVAS_SIZE, ICON_CANVAS_SIZE)
      = Inr (nearest (convert_RGBA (\<lambda>p. p) (Image_new ''RGBA'' (2, 3) (255, 0, 0, 255))) (ICON_CANVAS_SIZE, ICON_CANVAS_SIZE))"
    by (simp add: mac_world_fields convert_RGBA_def Image_new_def)
  have large: "fit_lanczos mac_world (convert_RGBA (\<lambda>p. p) (Image_new ''RGBA'' (4000, 3000) (255, 0, 0, 255)))
      (ICON_CANVAS_SIZE, ICON_CANVAS_SIZE)
      = Inr (nearest (convert_RGBA (\<lambda>p. p) (Image_new ''RGBA'' (4000, 3000) (255, 0, 0, 255))) (ICON_CANVAS_SIZE, ICON_CANVAS_SIZE))"
    by (simp add: mac_world_fields convert_RGBA_def Image_new_def)
  have m: "im_mode (Image_new ''L'' (1024, 1024) (255::nat)) = ''L''"
    "im_width (Image_new ''L'' (1024, 1024) (255::nat)) = 1024"
    "im_height (Image_new ''L'' (1024, 1024) (255::nat)) = 1024"
    by (simp_all add: Image_new_def)
  show ?thesis
    using build_desktop_icon_with_mask_canvas [of mac_world "\<lambda>p. p"
            "Image_new ''RGBA'' (2, 3) (255, 0, 0, 255)" "Image_new ''L'' (1024, 1024) 255"]
          build_desktop_icon_with_mask_canvas [of mac_world "\<lambda>p. p"
            "Image_new ''RGBA'' (4000, 3000) (255, 0, 0, 255)" "Image_new ''L'' (1024, 1024) 255"]
          small large m
    by metis
qed

subsection \<open>What the mask extraction reads and leaves alone\<close>

text \<open>
  The outcome of a loader depends on the world only, not on the state it starts from, and
  the loaders change nothing but the temporary directories and the subprocess log.
\<close>

lemma paths_distinct: "distinct (SOURCE_ICON_PATH w # OUTPUT_PATHS w)"
  by (simp add: OUTPUT_PATHS_def SOURCE_ICON_PATH_def RENDERER_ICON_PATH_def
      DESKTOP_SOURCE_COPY_PATH_def DESKTOP_ICON_PNG_PATH_def DESKTOP_ICON_ICO_PATH_def
      DESKTOP_ICON_ICNS_PATH_def)

lemma car_candidate_result_indep:
  "fst (load_macos_container_bbox_candidate w ip c s)
     = fst (load_macos_container_bbox_candidate w ip c s')"
  by (simp add: load_macos_container_bbox_candidate_def extract_iconset_from_assets_car_def
      TemporaryDirectory_def Let_def split: sum.splits option.splits prod.splits)

lemma car_candidate_frame:
  "files (snd (load_macos_container_bbox_candidate w ip c s)) = files s"
  "dirs (snd (load_macos_container_bbox_candidate w ip c s)) = dirs s"
  "stdout (snd (load_macos_container_bbox_candidate w ip c s)) = stdout s"
  by (simp_all add: load_macos_container_bbox_candidate_def extract_iconset_from_assets_car_def
      TemporaryDirectory_def cleanup_def Let_def split: sum.splits option.splits prod.splits)

lemma icns_candidate_result_indep:
  "fst (load_macos_rounded_shape_mask_candidate w ip c s)
     = fst (load_macos_rounded_shape_mask_candidate w ip c s')"
  by (simp add: load_macos_rounded_shape_mask_candidate_def extract_iconset_from_icns_def
      TemporaryDirectory_def Let_def split: sum.splits option.splits prod.splits)

lemma icns_candidate_frame:
  "files (snd (load_macos_rounded_shape_mask_candidate w ip c s)) = files s"
  "dirs (snd (load_macos_rounded_shape_mask_candidate w ip c s)) = dirs s"
  "stdout (snd (load_macos_rounded_shape_mask_candidate w ip c s)) = stdout s"
  by (simp_all add: load_macos_rounded_shape_mask_candidate_def extract_iconset_from_icns_def
      TemporaryDirectory_def cleanup_def Let_def split: sum.splits option.splits prod.splits)

lemma car_loop_result_indep:
  "fst (load_macos_container_bbox_loop w ip cs errs s)
     = fst (load_macos_container_bbox_loop w ip cs errs s')"
proof (induction cs arbitrary: errs s s')
  case Nil
  show ?case by simp
next
  case (Cons c cs)
  obtain a s1 where a: "load_macos_container_bbox_candidate w ip c s = (a, s1)"
    by (cases "load_macos_container_bbox_candidate w ip c s")
  obtain s1' where a': "load_macos_container_bbox_candidate w ip c s' = (a, s1')"
    using car_candidate_result_indep [of w ip c s s'] a
    by (cases "load_macos_container_bbox_candidate w ip c s'") simp
  show ?case using a a' Cons.IH [of _ s1 s1'] by (cases a) simp_all
qed

lemma car_loop_frame:
  "files (snd (load_macos_container_bbox_loop w ip cs errs s)) = files s
   \<and> dirs (snd (load_macos_container_bbox_loop w ip cs errs s)) = dirs s
   \<and> stdout (snd (load_macos_container_bbox_loop w ip cs errs s)) = stdout s"
proof (induction cs arbitrary: errs s)
  case Nil
  show ?case by simp
next
  case (Cons c cs)
  obtain a s1 where a: "load_macos_container_bbox_candidate w ip c s = (a, s1)"
    by (cases "load_macos_container_bbox_candidate w ip c s")
  have f: "files s1 = files s" "dirs s1 = dirs s" "stdout s1 = stdout s"
    using car_candidate_frame [of w ip c s] a by simp_all
  show ?case using a f Cons.IH [of _ s1] by (cases a) simp_all
qed

lemma icns_loop_result_indep:
  "fst (load_macos_rounded_shape_mask_loop w ip cs errs s)
     = fst (load_macos_rounded_shape_mask_loop w ip cs errs s')"
proof (induction cs arbitrary: errs s s')
  case Nil
  show ?case by simp
next
  case (Cons c cs)
  obtain a s1 where a: "load_macos_rounded_shape_mask_candidate w ip c s = (a, s1)"
    by (cases "load_macos_rounded_shape_mask_candidate w ip c s")
  obtain s1' where a': "load_macos_rounded_shape_mask_candidate w ip c s' = (a, s1')"
    using icns_candidate_result_indep [of w ip c s s'] a
    by (cases "load_macos_rounded_shape_mask_candidate w ip c s'") simp
  show ?case using a a' Cons.IH [of _ s1 s1'] by (cases a) simp_all
qed

lemma icns_loop_frame:
  "files (snd (load_macos_rounded_shape_mask_loop w ip cs errs s)) = files s
   \<and> dirs (snd (load_macos_rounded_shape_mask_loop w ip cs errs s)) = dirs s
   \<and> stdout (snd (load_macos_rounded_shape_mask_loop w ip cs errs s)) = stdout s"
proof (induction cs arbitrary: errs s)
  case Nil
  show ?case by simp
next
  case (Cons c cs)
  obtain a s1 where a: "load_macos_rounded_shape_mask_candidate w ip c s = (a, s1)"
    by (cases "load_macos_rounded_shape_mask_candidate w ip c s")
  have f: "files s1 = files s" "dirs s1 = dirs s" "stdout s1 = stdout s"
    using icns_candidate_frame [of w ip c s] a by simp_all
  show ?case using a f Cons.IH [of _ s1] by (cases a) simp_all
qed

lemma standard_mask_result_indep:
  "fst (load_macos_standard_mask w s) = fst (load_macos_standard_mask w s')"
proof (cases "sys_platform w = ''darwin''")
  case False
  then show ?thesis by (simp add: load_macos_standard_mask_def)
next
  case True
  show ?thesis
  proof (cases "which_iconutil w")
    case None
    then show ?thesis using True by (simp add: load_macos_standard_mask_def)
  next
    case (Some ip)
    obtain r s1 where r: "load_macos_container_bbox w ip s = (r, s1)"
      by (cases "load_macos_container_bbox w ip s")
    obtain r' s1' where r': "load_macos_container_bbox w ip s' = (r', s1')"
      by (cases "load_macos_container_bbox w ip s'")
    have rr: "r = r'"
      using car_loop_result_indep [of w ip MACOS_ICON_CAR_CANDIDATES "[]" s s'] r r'
      by (simp add: load_macos_container_bbox_def)
    obtain q s2 where q: "load_macos_rounded_shape_mask w ip s1 = (q, s2)"
      by (cases "load_macos_rounded_shape_mask w ip s1")
    obtain q' s2' where q': "load_macos_rounded_shape_mask w ip s1' = (q', s2')"
      by (cases "load_macos_rounded_shape_mask w ip s1'")
    have qq: "q = q'"
      using icns_loop_result_indep [of w ip MACOS_ICON_ICNS_CANDIDATES "[]" s1 s1'] q q'
      by (simp add: load_macos_rounded_shape_mask_def)
    show ?thesis using True Some r r' rr q q' qq
      by (simp add: load_macos_standard_mask_def split: sum.splits prod.splits)
  qed
qed

lemma standard_mask_frame:
  "files (snd (load_macos_standard_mask w s)) = files s
   \<and> dirs (snd (load_macos_standard_mask w s)) = dirs s
   \<and> stdout (snd (load_macos_standard_mask w s)) = stdout s"
proof (cases "sys_platform w = ''darwin''")
  case False
  then show ?thesis by (simp add: load_macos_standard_mask_def)
next
  case True
  show ?thesis
  proof (cases "which_iconutil w")
    case None
    then show ?thesis using True by (simp add: load_macos_standard_mask_def)
  next
    case (Some ip)
    obtain r s1 where r: "load_macos_container_bbox w ip s = (r, s1)"
      by (cases "load_macos_container_bbox w ip s")
    have f1: "files s1 = files s \<and> dirs s1 = dirs s \<and> stdout s1 = stdout s"
      using car_loop_frame [of w ip MACOS_ICON_CAR_CANDIDATES "[]" s] r
      by (simp add: load_macos_container_bbox_def)
    obtain q s2 where q: "load_macos_rounded_shape_mask w ip s1 = (q, s2)"
      by (cases "load_macos_rounded_shape_mask w ip s1")
    have f2: "files s2 = files s1 \<and> dirs s2 = dirs s1 \<and> stdout s2 = stdout s1"
      using icns_loop_frame [of w ip MACOS_ICON_ICNS_CANDIDATES "[]" s1] q
      by (simp add: load_macos_rounded_shape_mask_def)
    show ?thesis using True Some r q f1 f2
      by (simp add: load_macos_standard_mask_def split: sum.splits prod.splits)
  qed
qed

subsection \<open>The shape of a run of \<^verbatim>\<open>build_icons_from_source\<close>\<close>

lemma build_icons_from_source_unfold:
  assumes "files s p = Some b" "p \<noteq> RENDERER_ICON_PATH w" "p \<noteq> DESKTOP_SOURCE_COPY_PATH w"
  shows "build_icons_from_source w p s =
     (case open_rgba w b of
        Inl e \<Rightarrow> (Inl e, copies_written w b s)
      | Inr source \<Rightarrow>
        (case load_macos_standard_mask w (copies_written w b s) of
           (Inl e, s5) \<Rightarrow> (Inl e, s5)
         | (Inr (standard_mask, container_source, rounded_shape_source), s5) \<Rightarrow>
        (case build_desktop_icon_with_mask w (\<lambda>p. p) source standard_mask of
           Inl e \<Rightarrow> (Inl e, s5)
         | Inr icon \<Rightarrow>
             (Inr (container_source, rounded_shape_source),
              write_file (DESKTOP_ICON_ICNS_PATH w) (save_icns w icon)
                (write_file (DESKTOP_ICON_ICO_PATH w) (save_ico w icon ICO_SIZES)
                  (write_file (DESKTOP_ICON_PNG_PATH w) (save_png w icon) s5))))))"
proof -
  let ?s2 = "mkdir (parent (DESKTOP_ICON_PNG_PATH w)) (mkdir (parent (RENDERER_ICON_PATH w)) s)"
  let ?s3 = "?s2\<lparr>files := (files ?s2)(RENDERER_ICON_PATH w \<mapsto> b)\<rparr>"
  have c1: "copyfile p (RENDERER_ICON_PATH w) ?s2 = Inr ?s3"
    using assms by (simp add: copyfile_def mkdir_def)
  have c2: "copyfile p (DESKTOP_SOURCE_COPY_PATH w) ?s3 = Inr (copies_written w b s)"
    using assms by (simp add: copyfile_def mkdir_def copies_written_def)
  have o: "open_source w p (copies_written w b s) = open_rgba w b"
    using assms by (simp add: open_source_def copies_written_def)
  show ?thesis
    unfolding build_icons_from_source_def Let_def c1 c2 o sum.case
    by (rule refl)
qed

lemma build_icons_from_source_early:
  assumes "files s p = None \<or> p = RENDERER_ICON_PATH w \<or> p = DESKTOP_SOURCE_COPY_PATH w"
  shows "(\<exists>e. fst (build_icons_from_source w p s) = Inl e)
         \<and> files (snd (build_icons_from_source w p s))
             = (if p = DESKTOP_SOURCE_COPY_PATH w \<and> p \<noteq> RENDERER_ICON_PATH w \<and> files s p \<noteq> None
                then (files s)(RENDERER_ICON_PATH w := files s p) else files s)
         \<and> proc_log (snd (build_icons_from_source w p s)) = proc_log s
         \<and> temp_made (snd (build_icons_from_source w p s)) = temp_made s
         \<and> temp_live (snd (build_icons_from_source w p s)) = temp_live s"
  using assms
  by (auto simp: build_icons_from_source_def copyfile_def mkdir_def Let_def
      split: option.splits)

subsection \<open>Paths and example states\<close>

lemma output_paths_differ:
  "RENDERER_ICON_PATH w \<noteq> DESKTOP_ICON_PNG_PATH w"
  "RENDERER_ICON_PATH w \<noteq> DESKTOP_ICON_ICO_PATH w"
  "RENDERER_ICON_PATH w \<noteq> DESKTOP_ICON_ICNS_PATH w"
  "DESKTOP_SOURCE_COPY_PATH w \<noteq> DESKTOP_ICON_PNG_PATH w"
  "DESKTOP_SOURCE_COPY_PATH w \<noteq> DESKTOP_ICON_ICO_PATH w"
  "DESKTOP_SOURCE_COPY_PATH w \<noteq> DESKTOP_ICON_ICNS_PATH w"
  "RENDERER_ICON_PATH w \<noteq> DESKTOP_SOURCE_COPY_PATH w"
  "DESKTOP_ICON_PNG_PATH w \<noteq> DESKTOP_ICON_ICO_PATH w"
  "DESKTOP_ICON_PNG_PATH w \<noteq> DESKTOP_ICON_ICNS_PATH w"
  "DESKTOP_ICON_ICO_PATH w \<noteq> DESKTOP_ICON_ICNS_PATH w"
  "SOURCE_ICON_PATH w \<noteq> RENDERER_ICON_PATH w"
  "SOURCE_ICON_PATH w \<noteq> DESKTOP_SOURCE_COPY_PATH w"
  "SOURCE_ICON_PATH w \<noteq> DESKTOP_ICON_PNG_PATH w"
  "SOURCE_ICON_PATH w \<noteq> DESKTOP_ICON_ICO_PATH w"
  "SOURCE_ICON_PATH w \<noteq> DESKTOP_ICON_ICNS_PATH w"
  using paths_distinct [of w] by (auto simp: OUTPUT_PATHS_def)

lemma copies_written_fields:
  "files (copies_written w b s) (RENDERER_ICON_PATH w) = Some b"
  "files (copies_written w b s) (DESKTOP_SOURCE_COPY_PATH w) = Some b"
  "q \<noteq> RENDERER_ICON_PATH w \<Longrightarrow> q \<noteq> DESKTOP_SOURCE_COPY_PATH w \<Longrightarrow>
     files (copies_written w b s) q = files s q"
  "proc_log (copies_written w b s) = proc_log s"
  "temp_made (copies_written w b s) = temp_made s"
  "temp_live (copies_written w b s) = temp_live s"
  "stdout (copies_written w b s) = stdout s"
  by (simp_all add: copies_written_def)

lemma linux_world_fields:
  "ROOT_DIR linux_world = ''/repo''"
  "sys_platform linux_world = ''linux''"
  "open_rgba linux_world = demo_open_rgba"
  by (simp_all add: linux_world_def mac_world_fields)

lemma demo_paths:
  "ROOT_DIR w = ''/repo'' \<Longrightarrow> SOURCE_ICON_PATH w = ''/repo/branding/source/app-icon.png''"
  "ROOT_DIR w = ''/repo'' \<Longrightarrow>
     RENDERER_ICON_PATH w = ''/repo/src/renderer/public/branding/app-icon.png''"
  "ROOT_DIR w = ''/repo'' \<Longrightarrow> DESKTOP_SOURCE_COPY_PATH w = ''/repo/public/branding/app-icon.png''"
  "ROOT_DIR w = ''/repo'' \<Longrightarrow>
     DESKTOP_ICON_PNG_PATH w = ''/repo/public/branding/app-icon-desktop.png''"
  "ROOT_DIR w = ''/repo'' \<Longrightarrow> DESKTOP_ICON_ICO_PATH w = ''/repo/public/branding/icon.ico''"
  "ROOT_DIR w = ''/repo'' \<Longrightarrow> DESKTOP_ICON_ICNS_PATH w = ''/repo/public/branding/icon.icns''"
  by (simp_all add: SOURCE_ICON_PATH_def RENDERER_ICON_PATH_def DESKTOP_SOURCE_COPY_PATH_def
      DESKTOP_ICON_PNG_PATH_def DESKTOP_ICON_ICO_PATH_def DESKTOP_ICON_ICNS_PATH_def)

lemma fresh_state_files:
  "files fresh_state ''/repo/branding/source/app-icon.png'' = Some master_bytes"
  "files fresh_state ''/repo/src/renderer/public/branding/app-icon.png'' = None"
  "files fresh_state ''/repo/public/branding/app-icon.png'' = None"
  "files fresh_state ''/repo/public/branding/app-icon-desktop.png'' = None"
  "files fresh_state ''/repo/public/branding/icon.ico'' = None"
  "files fresh_state ''/repo/public/branding/icon.icns'' = None"
  by (simp_all add: fresh_state_def)

subsection \<open>A failed mask extraction leaves the two copies behind\<close>

text \<open>
  C10.  \<^verbatim>\<open>build_icons_from_source\<close> copies the source to the renderer path and to the
  desktop source-copy path before it calls \<^verbatim>\<open>load_macos_standard_mask\<close>: the mask
  extraction starts from the state \<open>copies_written\<close>, in which both copies hold the source
  bytes and no subprocess has run yet.  So whenever the mask extraction fails, for whatever
  reason (platform, missing \<^verbatim>\<open>iconutil\<close>, exhausted candidates, corner check), the run
  fails with that error, the two copies are written, and the three composited files
  (PNG, ICO, ICNS) are as they were before the run.
\<close>

theorem mask_failure_leaves_copies_written:
  assumes "files s source_path = Some b"
      and "source_path \<noteq> RENDERER_ICON_PATH w"
      and "source_path \<noteq> DESKTOP_SOURCE_COPY_PATH w"
      and "open_rgba w b = Inr source"
      and "fst (load_macos_standard_mask w s) = Inl e"
  shows "fst (build_icons_from_source w source_path s) = Inl e
       \<and> snd (load_macos_standard_mask w (copies_written w b s))
           = snd (build_icons_from_source w source_path s)
       \<and> files (copies_written w b s) (RENDERER_ICON_PATH w) = Some b
       \<and> files (copies_written w b s) (DESKTOP_SOURCE_COPY_PATH w) = Some b
       \<and> proc_log (copies_written w b s) = proc_log s
       \<and> temp_made (copies_written w b s) = temp_made s
       \<and> files (snd (build_icons_from_source w source_path s)) (RENDERER_ICON_PATH w) = Some b
       \<and> files (snd (build_icons_from_source w source_path s)) (DESKTOP_SOURCE_COPY_PATH w) = Some b
       \<and> files (snd (build_icons_from_source w source_path s)) (DESKTOP_ICON_PNG_PATH w)
           = files s (DESKTOP_ICON_PNG_PATH w)
       \<and> files (snd (build_icons_from_source w source_path s)) (DESKTOP_ICON_ICO_PATH w)
           = files s (DESKTOP_ICON_ICO_PATH w)
       \<and> files (snd (build_icons_from_source w source_path s)) (DESKTOP_ICON_ICNS_PATH w)
           = files s (DESKTOP_ICON_ICNS_PATH w)"
proof -
  let ?s4 = "copies_written w b s"
  obtain r s5 where m: "load_macos_standard_mask w ?s4 = (r, s5)"
    by (cases "load_macos_standard_mask w ?s4")
  have "fst (load_macos_standard_mask w ?s4) = Inl e"
    using standard_mask_result_indep [of w ?s4 s] assms(5) by simp
  then have r: "r = Inl e" using m by simp
  have run: "build_icons_from_source w source_path s = (Inl e, s5)"
    using build_icons_from_source_unfold [OF assms(1-3)] assms(4) m r by simp
  have f: "files s5 = files ?s4"
    using standard_mask_frame [of w ?s4] m by simp
  show ?thesis
    using run f m by (simp add: copies_written_fields output_paths_differ [symmetric])
qed

theorem mask_failure_leaves_copies_written_witness:
  "fst (load_macos_standard_mask linux_world fresh_state)
     = Inl (RuntimeError ''[branding] macOS standard icon mask extraction requires macOS.'')
   \<and> fst (build_icons_from_source linux_world ''/repo/branding/source/app-icon.png'' fresh_state)
     = Inl (RuntimeError ''[branding] macOS standard icon mask extraction requires macOS.'')
   \<and> files (snd (build_icons_from_source linux_world ''/repo/branding/source/app-icon.png''
        fresh_state)) ''/repo/src/renderer/public/branding/app-icon.png'' = Some master_bytes
   \<and> files (snd (build_icons_from_source linux_world ''/repo/branding/source/app-icon.png''
        fresh_state)) ''/repo/public/branding/app-icon.png'' = Some master_bytes
   \<and> files (snd (build_icons_from_source linux_world ''/repo/branding/source/app-icon.png''
        fresh_state)) ''/repo/public/branding/app-icon-desktop.png'' = None
   \<and> files (snd (build_icons_from_source linux_world ''/repo/branding/source/app-icon.png''
        fresh_state)) ''/repo/public/branding/icon.ico'' = None
   \<and> files (snd (build_icons_from_source linux_world ''/repo/branding/source/app-icon.png''
        fresh_state)) ''/repo/public/branding/icon.icns'' = None"
proof -
  have p: "fst (load_macos_standard_mask linux_world fresh_state)
     = Inl (RuntimeError ''[branding] macOS standard icon mask extraction requires macOS.'')"
    by (simp add: load_macos_standard_mask_def linux_world_fields)
  have o: "open_rgba linux_world master_bytes = Inr (Image_new ''RGBA'' (2, 2) (255, 0, 0, 255))"
    by (simp add: linux_world_fields demo_open_rgba_def)
  show ?thesis
    using mask_failure_leaves_copies_written [of fresh_state
            "''/repo/branding/source/app-icon.png''" master_bytes linux_world
            "Image_new ''RGBA'' (2, 2) (255, 0, 0, 255)"
            "RuntimeError ''[branding] macOS standard icon mask extraction requires macOS.''"]
          p o
    by (simp add: demo_paths linux_world_fields fresh_state_files)
qed

subsection \<open>The platform gate\<close>

text \<open>
  C8.  On a platform other than \<^verbatim>\<open>darwin\<close>, \<^verbatim>\<open>load_macos_standard_mask\<close> raises
  its explicit error at once and leaves the state as it found it: no candidate is
  extracted.  A run of \<^verbatim>\<open>build_icons_from_source\<close> then always fails, with exactly that
  error once the source has been copied and opened; it runs no subprocess, creates no
  temporary directory and writes none of the three composited files.
\<close>

theorem non_macos_platform_is_fatal:
  assumes "sys_platform w \<noteq> ''darwin''"
  shows "load_macos_standard_mask w s
           = (Inl (RuntimeError
                ''[branding] macOS standard icon mask extraction requires macOS.''), s)
       \<and> (\<exists>e. fst (build_icons_from_source w source_path s) = Inl e)
       \<and> (\<forall>b source. files s source_path = Some b \<and> source_path \<noteq> RENDERER_ICON_PATH w
             \<and> source_path \<noteq> DESKTOP_SOURCE_COPY_PATH w \<and> open_rgba w b = Inr source \<longrightarrow>
           fst (build_icons_from_source w source_path s)
             = Inl (RuntimeError
                 ''[branding] macOS standard icon mask extraction requires macOS.''))
       \<and> proc_log (snd (build_icons_from_source w source_path s)) = proc_log s
       \<and> temp_made (snd (build_icons_from_source w source_path s)) = temp_made s
       \<and> files (snd (build_icons_from_source w source_path s)) (DESKTOP_ICON_PNG_PATH w)
           = files s (DESKTOP_ICON_PNG_PATH w)
       \<and> files (snd (build_icons_from_source w source_path s)) (DESKTOP_ICON_ICO_PATH w)
           = files s (DESKTOP_ICON_ICO_PATH w)
       \<and> files (snd (build_icons_from_source w source_path s)) (DESKTOP_ICON_ICNS_PATH w)
           = files s (DESKTOP_ICON_ICNS_PATH w)"
proof -
  have m: "\<And>t. load_macos_standard_mask w t
           = (Inl (RuntimeError
                ''[branding] macOS standard icon mask extraction requires macOS.''), t)"
    using assms by (simp add: load_macos_standard_mask_def)
  show ?thesis
  proof (cases "files s source_path = None \<or> source_path = RENDERER_ICON_PATH w
                  \<or> source_path = DESKTOP_SOURCE_COPY_PATH w")
    case True
    from build_icons_from_source_early [OF True] show ?thesis
      using m True by (auto simp: output_paths_differ [symmetric])
  next
    case False
    then obtain b where b: "files s source_path = Some b"
      "source_path \<noteq> RENDERER_ICON_PATH w" "source_path \<noteq> DESKTOP_SOURCE_COPY_PATH w"
      by auto
    show ?thesis
      using build_icons_from_source_unfold [OF b] b m
      by (cases "open_rgba w b")
         (simp_all add: copies_written_fields output_paths_differ [symmetric])
  qed
qed

theorem non_macos_platform_is_fatal_witness:
  "sys_platform linux_world \<noteq> ''darwin''
   \<and> load_macos_standard_mask linux_world fresh_state
       = (Inl (RuntimeError
            ''[branding] macOS standard icon mask extraction requires macOS.''), fresh_state)
   \<and> fst (build_icons_from_source linux_world ''/repo/branding/source/app-icon.png'' fresh_state)
       = Inl (RuntimeError ''[branding] macOS standard icon mask extraction requires macOS.'')
   \<and> proc_log (snd (build_icons_from_source linux_world ''/repo/branding/source/app-icon.png''
        fresh_state)) = []"
proof -
  have n: "sys_platform linux_world \<noteq> ''darwin''"
    by (simp add: linux_world_fields)
  have o: "open_rgba linux_world master_bytes = Inr (Image_new ''RGBA'' (2, 2) (255, 0, 0, 255))"
    by (simp add: linux_world_fields demo_open_rgba_def)
  have l: "proc_log fresh_state = []"
    by (simp add: fresh_state_def)
  show ?thesis
    using non_macos_platform_is_fatal [OF n, of fresh_state
            "''/repo/branding/source/app-icon.png''"] n o l
    by (simp add: demo_paths linux_world_fields fresh_state_files)
qed

lemma build_icons_from_source_early_result:
  assumes "files s p = None \<or> p = RENDERER_ICON_PATH w \<or> p = DESKTOP_SOURCE_COPY_PATH w"
  shows "fst (build_icons_from_source w p s)
           = (if files s p = None then Inl (FileNotFoundError p)
              else Inl (SameFileError p))"
  using assms
  by (auto simp: build_icons_from_source_def copyfile_def mkdir_def Let_def
      split: option.splits)

lemma write_file_fields:
  "files (write_file q b s) = (files s)(q \<mapsto> b)"
  "proc_log (write_file q b s) = proc_log s"
  "temp_made (write_file q b s) = temp_made s"
  "temp_live (write_file q b s) = temp_live s"
  "stdout (write_file q b s) = stdout s"
  by (simp_all add: write_file_def)

lemma print_line_fields:
  "files (print_line l s) = files s"
  "proc_log (print_line l s) = proc_log s"
  "temp_made (print_line l s) = temp_made s"
  "temp_live (print_line l s) = temp_live s"
  by (simp_all add: print_line_def)

text \<open>On success, the files after the run, in terms of the source bytes.\<close>

lemma build_icons_from_source_success:
  assumes "fst (build_icons_from_source w p s) = Inr r"
  shows "\<exists>b source m icon.
           files s p = Some b \<and> p \<noteq> RENDERER_ICON_PATH w \<and> p \<noteq> DESKTOP_SOURCE_COPY_PATH w
         \<and> open_rgba w b = Inr source
         \<and> fst (load_macos_standard_mask w s) = Inr (m, r)
         \<and> build_desktop_icon_with_mask w (\<lambda>p. p) source m = Inr icon
         \<and> files (snd (build_icons_from_source w p s))
             = (files s)(RENDERER_ICON_PATH w \<mapsto> b, DESKTOP_SOURCE_COPY_PATH w \<mapsto> b,
                 DESKTOP_ICON_PNG_PATH w \<mapsto> save_png w icon,
                 DESKTOP_ICON_ICO_PATH w \<mapsto> save_ico w icon ICO_SIZES,
                 DESKTOP_ICON_ICNS_PATH w \<mapsto> save_icns w icon)"
proof -
  have ne: "\<not> (files s p = None \<or> p = RENDERER_ICON_PATH w \<or> p = DESKTOP_SOURCE_COPY_PATH w)"
  proof
    assume "files s p = None \<or> p = RENDERER_ICON_PATH w \<or> p = DESKTOP_SOURCE_COPY_PATH w"
    from build_icons_from_source_early [OF this]
    obtain e where "fst (build_icons_from_source w p s) = Inl e" by blast
    with assms show False by simp
  qed
  then obtain b where b: "files s p = Some b"
    "p \<noteq> RENDERER_ICON_PATH w" "p \<noteq> DESKTOP_SOURCE_COPY_PATH w"
    by auto
  note u = build_icons_from_source_unfold [OF b]
  obtain source where o: "open_rgba w b = Inr source"
    using u assms by (cases "open_rgba w b") simp_all
  obtain q s5 where l: "load_macos_standard_mask w (copies_written w b s) = (q, s5)"
    by (cases "load_macos_standard_mask w (copies_written w b s)")
  obtain m cs rs where q: "q = Inr (m, cs, rs)"
    using u assms o l by (cases q) auto
  obtain icon where i: "build_desktop_icon_with_mask w (\<lambda>p. p) source m = Inr icon"
    using u assms o l q by (cases "build_desktop_icon_with_mask w (\<lambda>p. p) source m") simp_all
  have r: "r = (cs, rs)"
    using u assms o l q i by simp
  have f5: "files s5 = files (copies_written w b s)"
    using standard_mask_frame [of w "copies_written w b s"] l by simp
  have ind: "fst (load_macos_standard_mask w s) = Inr (m, r)"
    using standard_mask_result_indep [of w s "copies_written w b s"] l q r by simp
  have "files (snd (build_icons_from_source w p s))
          = (files s)(RENDERER_ICON_PATH w \<mapsto> b, DESKTOP_SOURCE_COPY_PATH w \<mapsto> b,
                 DESKTOP_ICON_PNG_PATH w \<mapsto> save_png w icon,
                 DESKTOP_ICON_ICO_PATH w \<mapsto> save_ico w icon ICO_SIZES,
                 DESKTOP_ICON_ICNS_PATH w \<mapsto> save_icns w icon)"
    using u o l q i f5 by (simp add: write_file_fields copies_written_def)
  then show ?thesis using b o ind i by blast
qed

subsection \<open>The source copies are the source bytes\<close>

text \<open>
  C4.  After a successful run of \<^verbatim>\<open>build_icons_from_source\<close> the renderer icon path
  and the desktop source-copy path hold exactly the bytes the source path held when the
  run started, whatever the decoders and encoders of the world do: the two files come from
  \<^verbatim>\<open>shutil.copyfile\<close>, and nothing later in the run writes to them.  For \<^verbatim>\<open>main\<close>,
  whose source is \<^verbatim>\<open>SOURCE_ICON_PATH\<close>, the master file itself is unchanged as well.
\<close>

theorem source_copies_are_exact:
  "(\<forall>r s'. build_icons_from_source w source_path s = (Inr r, s') \<longrightarrow>
       files s source_path \<noteq> None
     \<and> files s' (RENDERER_ICON_PATH w) = files s source_path
     \<and> files s' (DESKTOP_SOURCE_COPY_PATH w) = files s source_path)
   \<and> (\<forall>s'. main w s = (Inr (), s') \<longrightarrow>
       files s (SOURCE_ICON_PATH w) \<noteq> None
     \<and> files s' (RENDERER_ICON_PATH w) = files s (SOURCE_ICON_PATH w)
     \<and> files s' (DESKTOP_SOURCE_COPY_PATH w) = files s (SOURCE_ICON_PATH w)
     \<and> files s' (SOURCE_ICON_PATH w) = files s (SOURCE_ICON_PATH w))"
proof -
  have build: "files t p \<noteq> None
       \<and> files (snd (build_icons_from_source w p t)) (RENDERER_ICON_PATH w) = files t p
       \<and> files (snd (build_icons_from_source w p t)) (DESKTOP_SOURCE_COPY_PATH w) = files t p
       \<and> (p = SOURCE_ICON_PATH w \<longrightarrow>
            files (snd (build_icons_from_source w p t)) (SOURCE_ICON_PATH w) = files t p)"
    if "fst (build_icons_from_source w p t) = Inr r" for p t r
    using build_icons_from_source_success [OF that]
    by (auto simp: output_paths_differ output_paths_differ [symmetric])
  have first: "\<forall>r s'. build_icons_from_source w source_path s = (Inr r, s') \<longrightarrow>
       files s source_path \<noteq> None
     \<and> files s' (RENDERER_ICON_PATH w) = files s source_path
     \<and> files s' (DESKTOP_SOURCE_COPY_PATH w) = files s source_path"
  proof (intro allI impI)
    fix r s'
    assume a: "build_icons_from_source w source_path s = (Inr r, s')"
    then have "fst (build_icons_from_source w source_path s) = Inr r" by simp
    from build [OF this] a
    show "files s source_path \<noteq> None
     \<and> files s' (RENDERER_ICON_PATH w) = files s source_path
     \<and> files s' (DESKTOP_SOURCE_COPY_PATH w) = files s source_path"
      by simp
  qed
  have second: "\<forall>s'. main w s = (Inr (), s') \<longrightarrow>
       files s (SOURCE_ICON_PATH w) \<noteq> None
     \<and> files s' (RENDERER_ICON_PATH w) = files s (SOURCE_ICON_PATH w)
     \<and> files s' (DESKTOP_SOURCE_COPY_PATH w) = files s (SOURCE_ICON_PATH w)
     \<and> files s' (SOURCE_ICON_PATH w) = files s (SOURCE_ICON_PATH w)"
  proof (intro allI impI)
    fix s'
    assume a: "main w s = (Inr (), s')"
    let ?s1 = "print_line (''[branding] using source icon: '' @ SOURCE_ICON_PATH w) s"
    obtain q s2 where q: "build_icons_from_source w (SOURCE_ICON_PATH w) ?s1 = (q, s2)"
      by (cases "build_icons_from_source w (SOURCE_ICON_PATH w) ?s1")
    have ex: "files s (SOURCE_ICON_PATH w) \<noteq> None"
      using a by (auto simp: main_def split: if_splits)
    obtain r where r: "q = Inr r"
      using a q ex by (cases q) (auto simp: main_def Let_def)
    have fs: "files s' = files s2"
      using a q ex r by (auto simp: main_def Let_def print_line_fields split: prod.splits)
    have "fst (build_icons_from_source w (SOURCE_ICON_PATH w) ?s1) = Inr r"
      using q r by simp
    from build [OF this] q fs ex
    show "files s (SOURCE_ICON_PATH w) \<noteq> None
     \<and> files s' (RENDERER_ICON_PATH w) = files s (SOURCE_ICON_PATH w)
     \<and> files s' (DESKTOP_SOURCE_COPY_PATH w) = files s (SOURCE_ICON_PATH w)
     \<and> files s' (SOURCE_ICON_PATH w) = files s (SOURCE_ICON_PATH w)"
      by (simp add: print_line_fields)
  qed
  show ?thesis using first second by (rule conjI)
qed

subsection \<open>Evaluating the example machines\<close>

lemma ex_less_nat: "(\<exists>y::nat. y < n) = (0 < n)"
  by auto

lemma getbbox_Image_new_nonzero:
  assumes "c \<noteq> 0" "0 < a" "0 < b"
  shows "getbbox (Image_new m (a, b) c) = Some (0, 0, int a, int b)"
proof -
  have cols: "nonzero_columns (Image_new m (a, b) c) = [0..<a]"
    using assms by (simp add: nonzero_columns_def Image_new_def list_ex_iff ex_less_nat)
  have rows: "nonzero_rows (Image_new m (a, b) c) = [0..<b]"
    using assms by (simp add: nonzero_rows_def Image_new_def list_ex_iff ex_less_nat)
  have h: "hd [0..<a] = 0" "hd [0..<b] = 0"
    using assms by (simp_all add: hd_upt)
  have l: "int (last [0..<a]) + 1 = int a" "int (last [0..<b]) + 1 = int b"
    using assms by (simp_all add: last_upt)
  show ?thesis
    using assms h l by (simp add: getbbox_def cols rows Let_def)
qed

lemma getbbox_Image_new_zero: "getbbox (Image_new m sz 0) = None"
  by (simp add: getbbox_def nonzero_columns_def nonzero_rows_def Image_new_def list_ex_iff)

lemma getbbox_plus_shape: "getbbox plus_shape = Some (0, 0, 3, 3)"
  by (simp add: getbbox_def nonzero_columns_def nonzero_rows_def plus_shape_def upt_rec)

lemma standard_mask_result:
  assumes "sys_platform w = ''darwin''" "which_iconutil w = Some ip"
      and "fst (load_macos_container_bbox w ip s) = Inr (bb, cs)"
      and "fst (load_macos_rounded_shape_mask w ip s) = Inr (al, rs)"
  shows "fst (load_macos_standard_mask w s)
           = (case reshape_mask_to_bbox w al bb of
                Inl e \<Rightarrow> Inl e | Inr m \<Rightarrow> Inr (m, cs, rs))"
proof -
  obtain s1 where c: "load_macos_container_bbox w ip s = (Inr (bb, cs), s1)"
    using assms(3) by (cases "load_macos_container_bbox w ip s") simp
  have "fst (load_macos_rounded_shape_mask w ip s1) = Inr (al, rs)"
    using icns_loop_result_indep [of w ip MACOS_ICON_ICNS_CANDIDATES "[]" s1 s] assms(4)
    by (simp add: load_macos_rounded_shape_mask_def)
  then obtain s2 where r: "load_macos_rounded_shape_mask w ip s1 = (Inr (al, rs), s2)"
    by (cases "load_macos_rounded_shape_mask w ip s1") simp
  show ?thesis
    using assms(1,2) c r by (simp add: load_macos_standard_mask_def split: sum.splits)
qed

lemma mac_container:
  "fst (load_macos_container_bbox mac_world ip s)
     = Inr ((0, 0, 1024, 1024),
            ''/System/Applications/App Store.app/Contents/Resources/Assets.car'')"
  by (simp add: load_macos_container_bbox_def MACOS_ICON_CAR_CANDIDATES_def
      load_macos_container_bbox_candidate_def extract_iconset_from_assets_car_def
      TemporaryDirectory_def Let_def mac_world_fields demo_iconutil_def
      ICONSET_SOURCE_PNG_NAME_def ICONSET_SOURCE_ICON_NAME_def demo_open_alpha_def
      ICON_CANVAS_SIZE_def getbbox_Image_new_nonzero
      Image_new_def [where sz = "(1024, 1024)" and 'p = nat, THEN arg_cong [where f = im_width]]
      Image_new_def [where sz = "(1024, 1024)" and 'p = nat, THEN arg_cong [where f = im_height]])

lemma demo_select_largest:
  "select_largest_icon_png mac_world demo_icns_listing = Inr (Some (''icon_32x32.png'', [2]))"
  by (simp add: select_largest_icon_png_def glob_png_def demo_icns_listing_def suffix_def
      mac_world_fields demo_open_size_def)

lemma mac_shape:
  "fst (load_macos_rounded_shape_mask mac_world ip s)
     = Inr (plus_shape,
            ''/System/Applications/App Store.app/Contents/Resources/AppIcon.icns'')"
  by (simp add: load_macos_rounded_shape_mask_def MACOS_ICON_ICNS_CANDIDATES_def
      load_macos_rounded_shape_mask_candidate_def extract_iconset_from_icns_def
      TemporaryDirectory_def Let_def mac_world_fields demo_iconutil_def
      demo_select_largest [unfolded mac_world_fields] demo_select_largest
      demo_open_alpha_def getbbox_plus_shape)

lemma mac_reshape:
  "\<exists>m. reshape_mask_to_bbox mac_world plus_shape (0, 0, 1024, 1024) = Inr m
       \<and> im_mode m = ''L'' \<and> im_width m = 1024 \<and> im_height m = 1024"
  apply (simp add: reshape_mask_to_bbox_def getbbox_plus_shape)
  apply (simp add: Let_def resize_def mac_world_fields nearest_def Image_new_def
      ICON_CANVAS_SIZE_def plus_shape_def)
  done

lemma mac_standard_mask:
  "\<exists>m. fst (load_macos_standard_mask mac_world s)
         = Inr (m, ''/System/Applications/App Store.app/Contents/Resources/Assets.car'',
                ''/System/Applications/App Store.app/Contents/Resources/AppIcon.icns'')
       \<and> im_mode m = ''L'' \<and> im_width m = 1024 \<and> im_height m = 1024"
proof -
  obtain m where m: "reshape_mask_to_bbox mac_world plus_shape (0, 0, 1024, 1024) = Inr m"
    "im_mode m = ''L''" "im_width m = 1024" "im_height m = 1024"
    using mac_reshape by blast
  have "fst (load_macos_standard_mask mac_world s)
         = Inr (m, ''/System/Applications/App Store.app/Contents/Resources/Assets.car'',
                ''/System/Applications/App Store.app/Contents/Resources/AppIcon.icns'')"
    using standard_mask_result [OF mac_world_fields(2) mac_world_fields(3) mac_container mac_shape]
          m(1)
    by simp
  then show ?thesis using m by blast
qed

lemma mac_build:
  assumes "files s ''/repo/branding/source/app-icon.png'' = Some master_bytes"
  shows "fst (build_icons_from_source mac_world ''/repo/branding/source/app-icon.png'' s)
           = Inr (''/System/Applications/App Store.app/Contents/Resources/Assets.car'',
                  ''/System/Applications/App Store.app/Contents/Resources/AppIcon.icns'')"
proof -
  let ?p = "''/repo/branding/source/app-icon.png''"
  let ?s4 = "copies_written mac_world master_bytes s"
  obtain m where m: "fst (load_macos_standard_mask mac_world ?s4)
         = Inr (m, ''/System/Applications/App Store.app/Contents/Resources/Assets.car'',
                ''/System/Applications/App Store.app/Contents/Resources/AppIcon.icns'')"
    "im_mode m = ''L''" "im_width m = 1024" "im_height m = 1024"
    using mac_standard_mask [of ?s4] by blast
  obtain s5 where l: "load_macos_standard_mask mac_world ?s4
         = (Inr (m, ''/System/Applications/App Store.app/Contents/Resources/Assets.car'',
                ''/System/Applications/App Store.app/Contents/Resources/AppIcon.icns''), s5)"
    using m(1) by (cases "load_macos_standard_mask mac_world ?s4") simp
  have o: "open_rgba mac_world master_bytes = Inr (Image_new ''RGBA'' (2, 2) (255, 0, 0, 255))"
    by (simp add: mac_world_fields demo_open_rgba_def)
  have f: "fit_lanczos mac_world
             (convert_RGBA (\<lambda>p. p) (Image_new ''RGBA'' (2, 2) (255, 0, 0, 255)))
             (ICON_CANVAS_SIZE, ICON_CANVAS_SIZE)
           = Inr (nearest (convert_RGBA (\<lambda>p. p) (Image_new ''RGBA'' (2, 2) (255, 0, 0, 255)))
                   (ICON_CANVAS_SIZE, ICON_CANVAS_SIZE))"
    by (simp add: mac_world_fields convert_RGBA_def Image_new_def)
  obtain icon where i: "build_desktop_icon_with_mask mac_world (\<lambda>p. p)
                          (Image_new ''RGBA'' (2, 2) (255, 0, 0, 255)) m = Inr icon"
    using build_desktop_icon_with_mask_returns [OF f m(2-4)] by blast
  have n: "?p \<noteq> RENDERER_ICON_PATH mac_world" "?p \<noteq> DESKTOP_SOURCE_COPY_PATH mac_world"
    by (simp_all add: demo_paths mac_world_fields)
  show ?thesis
    using build_icons_from_source_unfold [OF assms n] o l i by simp
qed

lemma mac_main: "fst (main mac_world fresh_state) = Inr ()"
proof -
  let ?s1 = "print_line (''[branding] using source icon: '' @ SOURCE_ICON_PATH mac_world)
               fresh_state"
  have f: "files ?s1 ''/repo/branding/source/app-icon.png'' = Some master_bytes"
    by (simp add: print_line_fields fresh_state_files)
  obtain s2 where b: "build_icons_from_source mac_world ''/repo/branding/source/app-icon.png'' ?s1
    = (Inr (''/System/Applications/App Store.app/Contents/Resources/Assets.car'',
                  ''/System/Applications/App Store.app/Contents/Resources/AppIcon.icns''), s2)"
    using mac_build [OF f]
    by (cases "build_icons_from_source mac_world ''/repo/branding/source/app-icon.png'' ?s1") simp
  show ?thesis
    using b by (simp add: main_def Let_def demo_paths mac_world_fields fresh_state_files)
qed

text \<open>The run of the example Mac as an instance of C4.\<close>

theorem source_copies_are_exact_witness:
  "fst (main mac_world fresh_state) = Inr ()
   \<and> files (snd (main mac_world fresh_state))
        ''/repo/src/renderer/public/branding/app-icon.png'' = Some master_bytes
   \<and> files (snd (main mac_world fresh_state))
        ''/repo/public/branding/app-icon.png'' = Some master_bytes
   \<and> files (snd (main mac_world fresh_state))
        ''/repo/branding/source/app-icon.png'' = Some master_bytes"
proof -
  have m: "main mac_world fresh_state = (Inr (), snd (main mac_world fresh_state))"
    using mac_main by (cases "main mac_world fresh_state") simp
  show ?thesis
    using source_copies_are_exact [of mac_world _ fresh_state] m mac_main
    by (simp add: demo_paths mac_world_fields fresh_state_files)
qed

subsection \<open>Two runs on the same source\<close>

lemma build_icons_from_source_same_result:
  assumes "files s1 p = files s2 p"
  shows "fst (build_icons_from_source w p s1) = fst (build_icons_from_source w p s2)"
proof (cases "files s1 p = None \<or> p = RENDERER_ICON_PATH w \<or> p = DESKTOP_SOURCE_COPY_PATH w")
  case True
  then have "files s2 p = None \<or> p = RENDERER_ICON_PATH w \<or> p = DESKTOP_SOURCE_COPY_PATH w"
    using assms by simp
  from build_icons_from_source_early_result [OF True]
       build_icons_from_source_early_result [OF this]
  show ?thesis using assms by simp
next
  case False
  then obtain b where b1: "files s1 p = Some b"
    "p \<noteq> RENDERER_ICON_PATH w" "p \<noteq> DESKTOP_SOURCE_COPY_PATH w"
    by auto
  have b2: "files s2 p = Some b" using b1 assms by simp
  obtain q t1 where l1: "load_macos_standard_mask w (copies_written w b s1) = (q, t1)"
    by (cases "load_macos_standard_mask w (copies_written w b s1)")
  obtain t2 where l2: "load_macos_standard_mask w (copies_written w b s2) = (q, t2)"
    using standard_mask_result_indep [of w "copies_written w b s1" "copies_written w b s2"] l1
    by (cases "load_macos_standard_mask w (copies_written w b s2)") simp
  show ?thesis
    using build_icons_from_source_unfold [OF b1] build_icons_from_source_unfold [OF b2 b1(2,3)]
          l1 l2
    by (simp split: sum.splits prod.splits)
qed

lemma build_icons_from_source_same_outputs:
  assumes "files s1 p = files s2 p"
      and "fst (build_icons_from_source w p s1) = Inr r"
      and "out \<in> set (OUTPUT_PATHS w)"
  shows "files (snd (build_icons_from_source w p s1)) out
           = files (snd (build_icons_from_source w p s2)) out"
proof -
  have r2: "fst (build_icons_from_source w p s2) = Inr r"
    using build_icons_from_source_same_result [OF assms(1), of w] assms(2) by simp
  obtain b source m icon where a:
    "files s1 p = Some b" "open_rgba w b = Inr source"
    "fst (load_macos_standard_mask w s1) = Inr (m, r)"
    "build_desktop_icon_with_mask w (\<lambda>p. p) source m = Inr icon"
    "files (snd (build_icons_from_source w p s1))
       = (files s1)(RENDERER_ICON_PATH w \<mapsto> b, DESKTOP_SOURCE_COPY_PATH w \<mapsto> b,
           DESKTOP_ICON_PNG_PATH w \<mapsto> save_png w icon,
           DESKTOP_ICON_ICO_PATH w \<mapsto> save_ico w icon ICO_SIZES,
           DESKTOP_ICON_ICNS_PATH w \<mapsto> save_icns w icon)"
    using build_icons_from_source_success [OF assms(2)] by blast
  obtain b' source' m' icon' where a':
    "files s2 p = Some b'" "open_rgba w b' = Inr source'"
    "fst (load_macos_standard_mask w s2) = Inr (m', r)"
    "build_desktop_icon_with_mask w (\<lambda>p. p) source' m' = Inr icon'"
    "files (snd (build_icons_from_source w p s2))
       = (files s2)(RENDERER_ICON_PATH w \<mapsto> b', DESKTOP_SOURCE_COPY_PATH w \<mapsto> b',
           DESKTOP_ICON_PNG_PATH w \<mapsto> save_png w icon',
           DESKTOP_ICON_ICO_PATH w \<mapsto> save_ico w icon' ICO_SIZES,
           DESKTOP_ICON_ICNS_PATH w \<mapsto> save_icns w icon')"
    using build_icons_from_source_success [OF r2] by blast
  have "b' = b" using a(1) a'(1) assms(1) by simp
  moreover have "source' = source" using a(2) a'(2) \<open>b' = b\<close> by simp
  moreover have "m' = m"
    using a(3) a'(3) standard_mask_result_indep [of w s1 s2] by simp
  moreover have "icon' = icon" using a(4) a'(4) \<open>source' = source\<close> \<open>m' = m\<close> by simp
  ultimately show ?thesis
    using a(5) a'(5) assms(3) by (auto simp: OUTPUT_PATHS_def)
qed

lemma main_result:
  "fst (main w s)
     = (if files s (SOURCE_ICON_PATH w) = None
        then Inl (SystemExit (''[branding] source icon missing: '' @ SOURCE_ICON_PATH w))
        else case fst (build_icons_from_source w (SOURCE_ICON_PATH w)
                        (print_line (''[branding] using source icon: '' @ SOURCE_ICON_PATH w) s)) of
               Inl e \<Rightarrow> Inl e
             | Inr r \<Rightarrow> Inr ())"
  by (simp add: main_def Let_def split: prod.splits sum.splits)

lemma main_files:
  "files (snd (main w s))
     = (if files s (SOURCE_ICON_PATH w) = None then files s
        else files (snd (build_icons_from_source w (SOURCE_ICON_PATH w)
                      (print_line (''[branding] using source icon: '' @ SOURCE_ICON_PATH w) s))))"
  by (simp add: main_def Let_def print_line_fields split: prod.splits sum.splits)

lemma mac_main_outputs:
  assumes "files s ''/repo/branding/source/app-icon.png'' = Some master_bytes"
  shows "fst (main mac_world s) = Inr ()"
    and "files (snd (main mac_world s)) ''/repo/src/renderer/public/branding/app-icon.png''
           = Some master_bytes"
    and "files (snd (main mac_world s)) ''/repo/public/branding/app-icon.png''
           = Some master_bytes"
    and "files (snd (main mac_world s)) ''/repo/public/branding/app-icon-desktop.png''
           = Some [1]"
    and "files (snd (main mac_world s)) ''/repo/public/branding/icon.ico'' = Some [2]"
    and "files (snd (main mac_world s)) ''/repo/public/branding/icon.icns'' = Some [3]"
proof -
  let ?p = "''/repo/branding/source/app-icon.png''"
  let ?s1 = "print_line (''[branding] using source icon: '' @ SOURCE_ICON_PATH mac_world) s"
  have f: "files ?s1 ?p = Some master_bytes"
    using assms by (simp add: print_line_fields)
  note b = mac_build [OF f]
  have sp: "SOURCE_ICON_PATH mac_world = ?p"
    by (simp add: demo_paths mac_world_fields)
  show "fst (main mac_world s) = Inr ()"
    using b assms by (simp only: main_result sp) simp
  have mf: "files (snd (main mac_world s))
              = files (snd (build_icons_from_source mac_world ?p ?s1))"
    using assms by (simp only: main_files sp) simp
  obtain b0 icon where a: "files ?s1 ?p = Some b0"
    "files (snd (build_icons_from_source mac_world ?p ?s1))
       = (files ?s1)(RENDERER_ICON_PATH mac_world \<mapsto> b0,
           DESKTOP_SOURCE_COPY_PATH mac_world \<mapsto> b0,
           DESKTOP_ICON_PNG_PATH mac_world \<mapsto> save_png mac_world icon,
           DESKTOP_ICON_ICO_PATH mac_world \<mapsto> save_ico mac_world icon ICO_SIZES,
           DESKTOP_ICON_ICNS_PATH mac_world \<mapsto> save_icns mac_world icon)"
    using build_icons_from_source_success [OF b] by blast
  have b0: "b0 = master_bytes" using a(1) f by simp
  show "files (snd (main mac_world s)) ''/repo/src/renderer/public/branding/app-icon.png''
           = Some master_bytes"
    and "files (snd (main mac_world s)) ''/repo/public/branding/app-icon.png''
           = Some master_bytes"
    and "files (snd (main mac_world s)) ''/repo/public/branding/app-icon-desktop.png''
           = Some [1]"
    and "files (snd (main mac_world s)) ''/repo/public/branding/icon.ico'' = Some [2]"
    and "files (snd (main mac_world s)) ''/repo/public/branding/icon.icns'' = Some [3]"
    unfolding mf a(2) b0
    by (simp_all add: demo_paths mac_world_fields)
qed

lemma stale_state_files:
  "files stale_state ''/repo/branding/source/app-icon.png'' = Some master_bytes"
  "files stale_state ''/repo/public/branding/app-icon-desktop.png'' = Some [8]"
  by (simp_all add: stale_state_def)

lemma main_keeps_source:
  assumes "fst (main w s) = Inr ()"
  shows "files (snd (main w s)) (SOURCE_ICON_PATH w) = files s (SOURCE_ICON_PATH w)"
proof -
  let ?l = "''[branding] using source icon: '' @ SOURCE_ICON_PATH w"
  have ex: "files s (SOURCE_ICON_PATH w) \<noteq> None"
    using assms by (auto simp: main_result split: if_splits)
  then obtain r where r: "fst (build_icons_from_source w (SOURCE_ICON_PATH w)
                                  (print_line ?l s)) = Inr r"
    using assms by (auto simp: main_result split: sum.splits)
  have m: "files (snd (main w s))
          = files (snd (build_icons_from_source w (SOURCE_ICON_PATH w) (print_line ?l s)))"
    using ex by (simp only: main_files if_False)
  show ?thesis
    unfolding m using build_icons_from_source_success [OF r]
    by (auto simp: output_paths_differ print_line_fields)
qed

subsection \<open>A failed run and the composited files\<close>

lemma build_failure_keeps_composited:
  assumes "fst (build_icons_from_source w p s) = Inl e"
  shows "files (snd (build_icons_from_source w p s)) (DESKTOP_ICON_PNG_PATH w)
           = files s (DESKTOP_ICON_PNG_PATH w)"
    and "files (snd (build_icons_from_source w p s)) (DESKTOP_ICON_ICO_PATH w)
           = files s (DESKTOP_ICON_ICO_PATH w)"
    and "files (snd (build_icons_from_source w p s)) (DESKTOP_ICON_ICNS_PATH w)
           = files s (DESKTOP_ICON_ICNS_PATH w)"
proof -
  have "files (snd (build_icons_from_source w p s)) (DESKTOP_ICON_PNG_PATH w)
           = files s (DESKTOP_ICON_PNG_PATH w)
      \<and> files (snd (build_icons_from_source w p s)) (DESKTOP_ICON_ICO_PATH w)
           = files s (DESKTOP_ICON_ICO_PATH w)
      \<and> files (snd (build_icons_from_source w p s)) (DESKTOP_ICON_ICNS_PATH w)
           = files s (DESKTOP_ICON_ICNS_PATH w)"
  proof (cases "files s p = None \<or> p = RENDERER_ICON_PATH w \<or> p = DESKTOP_SOURCE_COPY_PATH w")
    case True
    from build_icons_from_source_early [OF True] show ?thesis
      by (auto simp: output_paths_differ [symmetric])
  next
    case False
    then obtain b where b: "files s p = Some b"
      "p \<noteq> RENDERER_ICON_PATH w" "p \<noteq> DESKTOP_SOURCE_COPY_PATH w"
      by auto
    obtain q s5 where l: "load_macos_standard_mask w (copies_written w b s) = (q, s5)"
      by (cases "load_macos_standard_mask w (copies_written w b s)")
    have f5: "files s5 = files (copies_written w b s)"
      using standard_mask_frame [of w "copies_written w b s"] l by simp
    have "files (snd (build_icons_from_source w p s)) = files (copies_written w b s)"
      using build_icons_from_source_unfold [OF b] assms l f5
      by (auto split: sum.splits prod.splits)
    then show ?thesis
      by (simp add: copies_written_fields output_paths_differ [symmetric])
  qed
  then show "files (snd (build_icons_from_source w p s)) (DESKTOP_ICON_PNG_PATH w)
           = files s (DESKTOP_ICON_PNG_PATH w)"
    and "files (snd (build_icons_from_source w p s)) (DESKTOP_ICON_ICO_PATH w)
           = files s (DESKTOP_ICON_ICO_PATH w)"
    and "files (snd (build_icons_from_source w p s)) (DESKTOP_ICON_ICNS_PATH w)
           = files s (DESKTOP_ICON_ICNS_PATH w)"
    by simp_all
qed

lemma square_shape_world_fields:
  "ROOT_DIR square_shape_world = ''/repo''"
  "sys_platform square_shape_world = ''darwin''"
  "which_iconutil square_shape_world = Some ''/usr/bin/iconutil''"
  "path_exists square_shape_world = (\<lambda>p. True)"
  "iconutil square_shape_world = (\<lambda>tool input icon.
        case icon of Some n \<Rightarrow> Inr [(''icon_512x512@2x.png'', [1])]
                   | None \<Rightarrow> Inr [(''icon_16x16.png'', [5])])"
  "open_size square_shape_world = demo_open_size"
  "open_alpha square_shape_world = demo_open_alpha"
  "open_rgba square_shape_world = demo_open_rgba"
  "resize_lanczos square_shape_world = nearest"
  by (simp_all add: square_shape_world_def mac_world_fields)

lemma square_container:
  "fst (load_macos_container_bbox square_shape_world ip s)
     = Inr ((0, 0, 1024, 1024),
            ''/System/Applications/App Store.app/Contents/Resources/Assets.car'')"
  by (simp add: load_macos_container_bbox_def MACOS_ICON_CAR_CANDIDATES_def
      load_macos_container_bbox_candidate_def extract_iconset_from_assets_car_def
      TemporaryDirectory_def Let_def square_shape_world_fields
      ICONSET_SOURCE_PNG_NAME_def ICONSET_SOURCE_ICON_NAME_def demo_open_alpha_def
      ICON_CANVAS_SIZE_def getbbox_Image_new_nonzero
      Image_new_def [where sz = "(1024, 1024)" and 'p = nat, THEN arg_cong [where f = im_width]]
      Image_new_def [where sz = "(1024, 1024)" and 'p = nat, THEN arg_cong [where f = im_height]])

lemma square_shape:
  "fst (load_macos_rounded_shape_mask square_shape_world ip s)
     = Inr (Image_new ''L'' (2, 2) 255,
            ''/System/Applications/App Store.app/Contents/Resources/AppIcon.icns'')"
  by (simp add: load_macos_rounded_shape_mask_def MACOS_ICON_ICNS_CANDIDATES_def
      load_macos_rounded_shape_mask_candidate_def extract_iconset_from_icns_def
      TemporaryDirectory_def Let_def square_shape_world_fields
      select_largest_icon_png_def glob_png_def suffix_def demo_open_size_def
      demo_open_alpha_def getbbox_Image_new_nonzero)

lemma square_reshape:
  "reshape_mask_to_bbox square_shape_world (Image_new ''L'' (2, 2) 255) (0, 0, 1024, 1024)
     = Inl (RuntimeError
         ''[branding] rounded shape validation failed: corner is not transparent'')"
  apply (simp add: reshape_mask_to_bbox_def getbbox_Image_new_nonzero)
  apply (simp add: Let_def resize_def square_shape_world_fields nearest_def Image_new_def
      ICON_CANVAS_SIZE_def)
  done

lemma square_standard_mask:
  "fst (load_macos_standard_mask square_shape_world s)
     = Inl (RuntimeError
         ''[branding] rounded shape validation failed: corner is not transparent'')"
  using standard_mask_result [OF square_shape_world_fields(2) square_shape_world_fields(3)
          square_container square_shape]
  by (simp add: square_reshape)

lemma square_build:
  "fst (build_icons_from_source square_shape_world ''/repo/branding/source/app-icon.png''
          fresh_state)
     = Inl (RuntimeError
         ''[branding] rounded shape validation failed: corner is not transparent'')"
  "files (snd (build_icons_from_source square_shape_world ''/repo/branding/source/app-icon.png''
          fresh_state))
     = files (copies_written square_shape_world master_bytes fresh_state)"
proof -
  let ?p = "''/repo/branding/source/app-icon.png''"
  let ?s4 = "copies_written square_shape_world master_bytes fresh_state"
  let ?e = "RuntimeError
         ''[branding] rounded shape validation failed: corner is not transparent''"
  obtain s5 where l: "load_macos_standard_mask square_shape_world ?s4 = (Inl ?e, s5)"
    using square_standard_mask [of ?s4]
    by (cases "load_macos_standard_mask square_shape_world ?s4") simp
  have f5: "files s5 = files ?s4"
    using standard_mask_frame [of square_shape_world ?s4] l by simp
  have o: "open_rgba square_shape_world master_bytes
             = Inr (Image_new ''RGBA'' (2, 2) (255, 0, 0, 255))"
    by (simp add: square_shape_world_fields demo_open_rgba_def)
  have n: "?p \<noteq> RENDERER_ICON_PATH square_shape_world"
    "?p \<noteq> DESKTOP_SOURCE_COPY_PATH square_shape_world"
    by (simp_all add: demo_paths square_shape_world_fields)
  note u = build_icons_from_source_unfold [OF fresh_state_files(1) n]
  show "fst (build_icons_from_source square_shape_world ?p fresh_state) = Inl ?e"
    using u o l by simp
  show "files (snd (build_icons_from_source square_shape_world ?p fresh_state)) = files ?s4"
    using u o l f5 by simp
qed

lemma build_failure_copies_written:
  assumes "fst (build_icons_from_source w p s) = Inl e"
      and "files s p = Some b" "p \<noteq> RENDERER_ICON_PATH w" "p \<noteq> DESKTOP_SOURCE_COPY_PATH w"
  shows "files (snd (build_icons_from_source w p s)) = files (copies_written w b s)"
proof -
  obtain q s5 where l: "load_macos_standard_mask w (copies_written w b s) = (q, s5)"
    by (cases "load_macos_standard_mask w (copies_written w b s)")
  have f5: "files s5 = files (copies_written w b s)"
    using standard_mask_frame [of w "copies_written w b s"] l by simp
  show ?thesis
    using build_icons_from_source_unfold [OF assms(2-4)] assms(1) l f5
    by (auto split: sum.splits prod.splits)
qed

lemma build_runtime_error_after_copies:
  assumes "fst (build_icons_from_source w p s) = Inl (RuntimeError msg)"
  shows "files s p \<noteq> None
       \<and> files (snd (build_icons_from_source w p s)) (RENDERER_ICON_PATH w) = files s p
       \<and> files (snd (build_icons_from_source w p s)) (DESKTOP_SOURCE_COPY_PATH w) = files s p"
proof -
  have ne: "\<not> (files s p = None \<or> p = RENDERER_ICON_PATH w \<or> p = DESKTOP_SOURCE_COPY_PATH w)"
  proof
    assume "files s p = None \<or> p = RENDERER_ICON_PATH w \<or> p = DESKTOP_SOURCE_COPY_PATH w"
    from build_icons_from_source_early_result [OF this] assms show False
      by (simp split: if_splits)
  qed
  then obtain b where b: "files s p = Some b"
    "p \<noteq> RENDERER_ICON_PATH w" "p \<noteq> DESKTOP_SOURCE_COPY_PATH w"
    by auto
  show ?thesis
    using build_failure_copies_written [OF assms b] b(1)
    by (simp add: copies_written_fields)
qed

lemma reshape_failure_run:
  assumes "files s p = Some b" "p \<noteq> RENDERER_ICON_PATH w" "p \<noteq> DESKTOP_SOURCE_COPY_PATH w"
      and "open_rgba w b = Inr source"
      and "sys_platform w = ''darwin''" "which_iconutil w = Some ip"
      and "fst (load_macos_container_bbox w ip s) = Inr (bb, cs)"
      and "fst (load_macos_rounded_shape_mask w ip s) = Inr (al, rs)"
      and "reshape_mask_to_bbox w al bb = Inl e"
  shows "fst (build_icons_from_source w p s) = Inl e"
proof -
  have "fst (load_macos_standard_mask w s) = Inl e"
    using standard_mask_result [OF assms(5-8)] assms(9) by simp
  then have "fst (load_macos_standard_mask w (copies_written w b s)) = Inl e"
    using standard_mask_result_indep [of w "copies_written w b s" s] by simp
  then obtain s5 where "load_macos_standard_mask w (copies_written w b s) = (Inl e, s5)"
    by (cases "load_macos_standard_mask w (copies_written w b s)") simp
  then show ?thesis
    using build_icons_from_source_unfold [OF assms(1-3)] assms(4) by simp
qed

subsection \<open>The corner check of \<^verbatim>\<open>reshape_mask_to_bbox\<close>\<close>

text \<open>
  C1, as the script has it.  A mask that \<^verbatim>\<open>reshape_mask_to_bbox\<close> returns reads 0 at
  the top-left corner \<open>(x0, y0)\<close> of the target box; when the pasted mask reads a non-zero
  value there, the function raises its validation error instead of returning.  A run of
  \<^verbatim>\<open>build_icons_from_source\<close> that ends in that error has written the two source copies
  (both hold the bytes of the source) and has written none of the three composited files
  (PNG, ICO, ICNS).  The last conjunct follows the raise through the run: whenever the
  source is copied and opened, both loaders return and \<^verbatim>\<open>reshape_mask_to_bbox\<close> raises
  an error on what they returned, the run ends in that error with the copies written and
  the composited files untouched.
\<close>

theorem reshape_mask_to_bbox_corner:
  "(\<forall>m. reshape_mask_to_bbox w source_alpha (x0, y0, x1, y1) = Inr m \<longrightarrow>
        getpixel m (x0, y0) = Inr 0)
   \<and> (\<forall>source_bbox corner.
        getbbox source_alpha = Some source_bbox \<and> 0 < x1 - x0 \<and> 0 < y1 - y0
        \<and> getpixel (paste (Image_new ''L'' (ICON_CANVAS_SIZE, ICON_CANVAS_SIZE) 0)
                      (resize w (crop source_alpha source_bbox) (nat (x1 - x0), nat (y1 - y0)))
                      (x0, y0)) (x0, y0) = Inr corner
        \<and> corner \<noteq> 0 \<longrightarrow>
        reshape_mask_to_bbox w source_alpha (x0, y0, x1, y1)
          = Inl (RuntimeError
              ''[branding] rounded shape validation failed: corner is not transparent''))
   \<and> (fst (build_icons_from_source w source_path s)
         = Inl (RuntimeError
             ''[branding] rounded shape validation failed: corner is not transparent'') \<longrightarrow>
        files s source_path \<noteq> None
      \<and> files (snd (build_icons_from_source w source_path s)) (RENDERER_ICON_PATH w)
          = files s source_path
      \<and> files (snd (build_icons_from_source w source_path s)) (DESKTOP_SOURCE_COPY_PATH w)
          = files s source_path
      \<and> files (snd (build_icons_from_source w source_path s)) (DESKTOP_ICON_PNG_PATH w)
          = files s (DESKTOP_ICON_PNG_PATH w)
      \<and> files (snd (build_icons_from_source w source_path s)) (DESKTOP_ICON_ICO_PATH w)
          = files s (DESKTOP_ICON_ICO_PATH w)
      \<and> files (snd (build_icons_from_source w source_path s)) (DESKTOP_ICON_ICNS_PATH w)
          = files s (DESKTOP_ICON_ICNS_PATH w))
   \<and> (\<forall>b source iconutil_path container_bbox container_source alpha shape_source e.
        files s source_path = Some b \<and> source_path \<noteq> RENDERER_ICON_PATH w
        \<and> source_path \<noteq> DESKTOP_SOURCE_COPY_PATH w \<and> open_rgba w b = Inr source
        \<and> sys_platform w = ''darwin'' \<and> which_iconutil w = Some iconutil_path
        \<and> fst (load_macos_container_bbox w iconutil_path s)
            = Inr (container_bbox, container_source)
        \<and> fst (load_macos_rounded_shape_mask w iconutil_path s) = Inr (alpha, shape_source)
        \<and> reshape_mask_to_bbox w alpha container_bbox = Inl e \<longrightarrow>
        fst (build_icons_from_source w source_path s) = Inl e
      \<and> files (snd (build_icons_from_source w source_path s)) (RENDERER_ICON_PATH w) = Some b
      \<and> files (snd (build_icons_from_source w source_path s)) (DESKTOP_SOURCE_COPY_PATH w)
          = Some b
      \<and> files (snd (build_icons_from_source w source_path s)) (DESKTOP_ICON_PNG_PATH w)
          = files s (DESKTOP_ICON_PNG_PATH w)
      \<and> files (snd (build_icons_from_source w source_path s)) (DESKTOP_ICON_ICO_PATH w)
          = files s (DESKTOP_ICON_ICO_PATH w)
      \<and> files (snd (build_icons_from_source w source_path s)) (DESKTOP_ICON_ICNS_PATH w)
          = files s (DESKTOP_ICON_ICNS_PATH w))"
proof -
  have returned: "\<forall>m. reshape_mask_to_bbox w source_alpha (x0, y0, x1, y1) = Inr m \<longrightarrow>
        getpixel m (x0, y0) = Inr 0"
  proof (intro allI impI)
    fix m
    assume r: "reshape_mask_to_bbox w source_alpha (x0, y0, x1, y1) = Inr m"
    then obtain sb where sb: "getbbox source_alpha = Some sb"
      by (cases "getbbox source_alpha") (simp_all add: reshape_mask_to_bbox_def)
    let ?out = "paste (Image_new ''L'' (ICON_CANVAS_SIZE, ICON_CANVAS_SIZE) 0)
                  (resize w (crop source_alpha sb) (nat (x1 - x0), nat (y1 - y0))) (x0, y0)"
    have pos: "\<not> (x1 - x0 \<le> 0 \<or> y1 - y0 \<le> 0)"
      using r sb by (auto simp: reshape_mask_to_bbox_def Let_def split: if_splits)
    have r': "(case getpixel ?out (x0, y0) of
                 Inl e \<Rightarrow> Inl e
               | Inr corner \<Rightarrow>
                   if corner \<noteq> 0
                   then Inl (RuntimeError
                     ''[branding] rounded shape validation failed: corner is not transparent'')
                   else Inr ?out) = Inr m"
      using r sb pos
      by (simp add: reshape_mask_to_bbox_def Let_def del: getpixel.simps paste.simps)
    then show "getpixel m (x0, y0) = Inr 0"
      by (cases "getpixel ?out (x0, y0)")
         (auto simp del: getpixel.simps paste.simps split: if_splits)
  qed
  have raised: "\<forall>source_bbox corner.
        getbbox source_alpha = Some source_bbox \<and> 0 < x1 - x0 \<and> 0 < y1 - y0
        \<and> getpixel (paste (Image_new ''L'' (ICON_CANVAS_SIZE, ICON_CANVAS_SIZE) 0)
                      (resize w (crop source_alpha source_bbox) (nat (x1 - x0), nat (y1 - y0)))
                      (x0, y0)) (x0, y0) = Inr corner
        \<and> corner \<noteq> 0 \<longrightarrow>
        reshape_mask_to_bbox w source_alpha (x0, y0, x1, y1)
          = Inl (RuntimeError
              ''[branding] rounded shape validation failed: corner is not transparent'')"
    by (simp add: reshape_mask_to_bbox_def Let_def del: getpixel.simps paste.simps)
  have in_run: "files s source_path \<noteq> None
      \<and> files (snd (build_icons_from_source w source_path s)) (RENDERER_ICON_PATH w)
          = files s source_path
      \<and> files (snd (build_icons_from_source w source_path s)) (DESKTOP_SOURCE_COPY_PATH w)
          = files s source_path
      \<and> files (snd (build_icons_from_source w source_path s)) (DESKTOP_ICON_PNG_PATH w)
          = files s (DESKTOP_ICON_PNG_PATH w)
      \<and> files (snd (build_icons_from_source w source_path s)) (DESKTOP_ICON_ICO_PATH w)
          = files s (DESKTOP_ICON_ICO_PATH w)
      \<and> files (snd (build_icons_from_source w source_path s)) (DESKTOP_ICON_ICNS_PATH w)
          = files s (DESKTOP_ICON_ICNS_PATH w)"
    if f: "fst (build_icons_from_source w source_path s) = Inl (RuntimeError msg)" for msg
    using build_runtime_error_after_copies [OF f] build_failure_keeps_composited [OF f]
    by simp
  have traced: "fst (build_icons_from_source w source_path s) = Inl e
      \<and> files (snd (build_icons_from_source w source_path s)) (RENDERER_ICON_PATH w) = Some b
      \<and> files (snd (build_icons_from_source w source_path s)) (DESKTOP_SOURCE_COPY_PATH w)
          = Some b
      \<and> files (snd (build_icons_from_source w source_path s)) (DESKTOP_ICON_PNG_PATH w)
          = files s (DESKTOP_ICON_PNG_PATH w)
      \<and> files (snd (build_icons_from_source w source_path s)) (DESKTOP_ICON_ICO_PATH w)
          = files s (DESKTOP_ICON_ICO_PATH w)
      \<and> files (snd (build_icons_from_source w source_path s)) (DESKTOP_ICON_ICNS_PATH w)
          = files s (DESKTOP_ICON_ICNS_PATH w)"
    if h: "files s source_path = Some b \<and> source_path \<noteq> RENDERER_ICON_PATH w
        \<and> source_path \<noteq> DESKTOP_SOURCE_COPY_PATH w \<and> open_rgba w b = Inr source
        \<and> sys_platform w = ''darwin'' \<and> which_iconutil w = Some iconutil_path
        \<and> fst (load_macos_container_bbox w iconutil_path s)
            = Inr (container_bbox, container_source)
        \<and> fst (load_macos_rounded_shape_mask w iconutil_path s) = Inr (alpha, shape_source)
        \<and> reshape_mask_to_bbox w alpha container_bbox = Inl e"
    for b source iconutil_path container_bbox container_source alpha shape_source e
  proof -
    have f: "fst (build_icons_from_source w source_path s) = Inl e"
      using reshape_failure_run [of s source_path b w source iconutil_path container_bbox
              container_source alpha shape_source e] h
      by blast
    have c: "files (snd (build_icons_from_source w source_path s))
               = files (copies_written w b s)"
      using build_failure_copies_written [OF f] h by blast
    show ?thesis
      using f c build_failure_keeps_composited [OF f]
      by (simp add: copies_written_fields)
  qed
  show ?thesis
    using returned raised in_run traced by blast
qed

theorem reshape_mask_to_bbox_corner_witness:
  "(\<exists>m. reshape_mask_to_bbox mac_world plus_shape (0, 0, 1024, 1024) = Inr m
        \<and> getpixel m (0, 0) = Inr 0)
   \<and> getbbox (Image_new ''L'' (2, 2) 255) = Some (0, 0, 2, 2)
   \<and> getpixel (paste (Image_new ''L'' (ICON_CANVAS_SIZE, ICON_CANVAS_SIZE) 0)
        (resize square_shape_world (crop (Image_new ''L'' (2, 2) 255) (0, 0, 2, 2))
           (1024, 1024)) (0, 0)) (0, 0) = Inr 255
   \<and> reshape_mask_to_bbox square_shape_world (Image_new ''L'' (2, 2) 255) (0, 0, 1024, 1024)
       = Inl (RuntimeError
           ''[branding] rounded shape validation failed: corner is not transparent'')
   \<and> fst (load_macos_container_bbox square_shape_world ''/usr/bin/iconutil'' fresh_state)
       = Inr ((0, 0, 1024, 1024),
              ''/System/Applications/App Store.app/Contents/Resources/Assets.car'')
   \<and> fst (load_macos_rounded_shape_mask square_shape_world ''/usr/bin/iconutil'' fresh_state)
       = Inr (Image_new ''L'' (2, 2) 255,
              ''/System/Applications/App Store.app/Contents/Resources/AppIcon.icns'')
   \<and> fst (build_icons_from_source square_shape_world ''/repo/branding/source/app-icon.png''
          fresh_state)
       = Inl (RuntimeError
           ''[branding] rounded shape validation failed: corner is not transparent'')
   \<and> files fresh_state ''/repo/branding/source/app-icon.png'' = Some master_bytes
   \<and> files (snd (build_icons_from_source square_shape_world
         ''/repo/branding/source/app-icon.png'' fresh_state))
        ''/repo/src/renderer/public/branding/app-icon.png'' = Some master_bytes
   \<and> files (snd (build_icons_from_source square_shape_world
         ''/repo/branding/source/app-icon.png'' fresh_state))
        ''/repo/public/branding/app-icon.png'' = Some master_bytes
   \<and> files (snd (build_icons_from_source square_shape_world
         ''/repo/branding/source/app-icon.png'' fresh_state))
        ''/repo/public/branding/app-icon-desktop.png'' = None
   \<and> files (snd (build_icons_from_source square_shape_world
         ''/repo/branding/source/app-icon.png'' fresh_state))
        ''/repo/public/branding/icon.ico'' = None
   \<and> files (snd (build_icons_from_source square_shape_world
         ''/repo/branding/source/app-icon.png'' fresh_state))
        ''/repo/public/branding/icon.icns'' = None"
proof -
  let ?p = "''/repo/branding/source/app-icon.png''"
  let ?e = "RuntimeError
           ''[branding] rounded shape validation failed: corner is not transparent''"
  obtain m where m: "reshape_mask_to_bbox mac_world plus_shape (0, 0, 1024, 1024) = Inr m"
    using mac_reshape by blast
  have a: "getpixel m (0, 0) = Inr 0"
    using reshape_mask_to_bbox_corner [of mac_world plus_shape 0 0 1024 1024] m by blast
  have g: "getbbox (Image_new ''L'' (2, 2) (255::nat)) = Some (0, 0, 2, 2)"
    by (simp add: getbbox_Image_new_nonzero)
  have c: "getpixel (paste (Image_new ''L'' (ICON_CANVAS_SIZE, ICON_CANVAS_SIZE) 0)
        (resize square_shape_world (crop (Image_new ''L'' (2, 2) 255) (0, 0, 2, 2))
           (1024, 1024)) (0, 0)) (0, 0) = Inr (255::nat)"
    by (simp add: Let_def resize_def square_shape_world_fields nearest_def Image_new_def
      ICON_CANVAS_SIZE_def)
  note sq = reshape_mask_to_bbox_corner [of square_shape_world "Image_new ''L'' (2, 2) 255"
              0 0 1024 1024 ?p fresh_state]
  have b: "reshape_mask_to_bbox square_shape_world (Image_new ''L'' (2, 2) 255) (0, 0, 1024, 1024)
       = Inl ?e"
  proof -
    have c': "getpixel (paste (Image_new ''L'' (ICON_CANVAS_SIZE, ICON_CANVAS_SIZE) 0)
        (resize square_shape_world (crop (Image_new ''L'' (2, 2) 255) (0, 0, 2, 2))
           (nat (1024 - 0), nat (1024 - 0))) (0, 0)) (0, 0) = Inr (255::nat)"
      using c by simp
    have p: "(0::int) < 1024 - 0" by simp
    have nz: "(255::nat) \<noteq> 0" by simp
    show ?thesis
      using sq g c' p nz by blast
  qed
  have h1: "files fresh_state ?p = Some master_bytes"
    by (rule fresh_state_files(1))
  have h2: "?p \<noteq> RENDERER_ICON_PATH square_shape_world"
    "?p \<noteq> DESKTOP_SOURCE_COPY_PATH square_shape_world"
    by (simp_all add: demo_paths square_shape_world_fields)
  have h3: "open_rgba square_shape_world master_bytes
              = Inr (Image_new ''RGBA'' (2, 2) (255, 0, 0, 255))"
    by (simp add: square_shape_world_fields demo_open_rgba_def)
  have h4: "sys_platform square_shape_world = ''darwin''"
    "which_iconutil square_shape_world = Some ''/usr/bin/iconutil''"
    by (simp_all add: square_shape_world_fields)
  have h5: "fst (load_macos_container_bbox square_shape_world ''/usr/bin/iconutil'' fresh_state)
       = Inr ((0, 0, 1024, 1024),
              ''/System/Applications/App Store.app/Contents/Resources/Assets.car'')"
    by (rule square_container)
  have h6: "fst (load_macos_rounded_shape_mask square_shape_world ''/usr/bin/iconutil''
                  fresh_state)
       = Inr (Image_new ''L'' (2, 2) 255,
              ''/System/Applications/App Store.app/Contents/Resources/AppIcon.icns'')"
    by (rule square_shape)
  have run: "fst (build_icons_from_source square_shape_world ?p fresh_state) = Inl ?e
      \<and> files (snd (build_icons_from_source square_shape_world ?p fresh_state))
           (RENDERER_ICON_PATH square_shape_world) = Some master_bytes
      \<and> files (snd (build_icons_from_source square_shape_world ?p fresh_state))
           (DESKTOP_SOURCE_COPY_PATH square_shape_world) = Some master_bytes
      \<and> files (snd (build_icons_from_source square_shape_world ?p fresh_state))
           (DESKTOP_ICON_PNG_PATH square_shape_world)
          = files fresh_state (DESKTOP_ICON_PNG_PATH square_shape_world)
      \<and> files (snd (build_icons_from_source square_shape_world ?p fresh_state))
           (DESKTOP_ICON_ICO_PATH square_shape_world)
          = files fresh_state (DESKTOP_ICON_ICO_PATH square_shape_world)
      \<and> files (snd (build_icons_from_source square_shape_world ?p fresh_state))
           (DESKTOP_ICON_ICNS_PATH square_shape_world)
          = files fresh_state (DESKTOP_ICON_ICNS_PATH square_shape_world)"
    using sq h1 h2 h3 h4 h5 h6 b by blast
  have again: "files fresh_state ?p \<noteq> None
      \<and> files (snd (build_icons_from_source square_shape_world ?p fresh_state))
           (RENDERER_ICON_PATH square_shape_world) = files fresh_state ?p"
    using sq run by blast
  show ?thesis
    using m a g c b h1 h5 h6 run again
    by (simp add: demo_paths square_shape_world_fields fresh_state_files)
qed

text \<open>
  C1 as stated fails: on a Mac whose icon shape has an opaque corner,
  \<^verbatim>\<open>reshape_mask_to_bbox\<close> raises, and by then the run has already written the
  renderer icon and the desktop source copy, two of its five output files.
\<close>

theorem corner_failure_after_copies_counterexample:
  "reshape_mask_to_bbox square_shape_world (Image_new ''L'' (2, 2) 255) (0, 0, 1024, 1024)
     = Inl (RuntimeError
         ''[branding] rounded shape validation failed: corner is not transparent'')
   \<and> fst (build_icons_from_source square_shape_world ''/repo/branding/source/app-icon.png''
          fresh_state)
     = Inl (RuntimeError
         ''[branding] rounded shape validation failed: corner is not transparent'')
   \<and> files fresh_state ''/repo/src/renderer/public/branding/app-icon.png'' = None
   \<and> files fresh_state ''/repo/public/branding/app-icon.png'' = None
   \<and> files (snd (build_icons_from_source square_shape_world
         ''/repo/branding/source/app-icon.png'' fresh_state))
        ''/repo/src/renderer/public/branding/app-icon.png'' = Some master_bytes
   \<and> files (snd (build_icons_from_source square_shape_world
         ''/repo/branding/source/app-icon.png'' fresh_state))
        ''/repo/public/branding/app-icon.png'' = Some master_bytes"
  using copies_written_fields(1,2) [of square_shape_world master_bytes fresh_state]
  by (simp add: square_reshape square_build fresh_state_files demo_paths
      square_shape_world_fields)

subsection \<open>Runs on the same master icon\<close>

lemma main_copies:
  assumes "files s (SOURCE_ICON_PATH w) = Some b"
  shows "files (snd (main w s)) (RENDERER_ICON_PATH w) = Some b
       \<and> files (snd (main w s)) (DESKTOP_SOURCE_COPY_PATH w) = Some b"
proof -
  let ?l = "''[branding] using source icon: '' @ SOURCE_ICON_PATH w"
  let ?s1 = "print_line ?l s"
  have m: "files (snd (main w s))
          = files (snd (build_icons_from_source w (SOURCE_ICON_PATH w) ?s1))"
    using assms by (simp only: main_files) simp
  have b: "files ?s1 (SOURCE_ICON_PATH w) = Some b"
    using assms by (simp add: print_line_fields)
  show ?thesis
  proof (cases "fst (build_icons_from_source w (SOURCE_ICON_PATH w) ?s1)")
    case (Inl e)
    from build_failure_copies_written [OF Inl b output_paths_differ(11,12)]
    show ?thesis unfolding m by (simp add: copies_written_fields)
  next
    case (Inr r)
    from build_icons_from_source_success [OF Inr] b
    show ?thesis unfolding m
      by (auto simp: output_paths_differ output_paths_differ [symmetric])
  qed
qed

lemma main_failure_keeps_composited:
  assumes "fst (main w s) = Inl e"
  shows "files (snd (main w s)) (DESKTOP_ICON_PNG_PATH w) = files s (DESKTOP_ICON_PNG_PATH w)
       \<and> files (snd (main w s)) (DESKTOP_ICON_ICO_PATH w) = files s (DESKTOP_ICON_ICO_PATH w)
       \<and> files (snd (main w s)) (DESKTOP_ICON_ICNS_PATH w) = files s (DESKTOP_ICON_ICNS_PATH w)"
proof (cases "files s (SOURCE_ICON_PATH w) = None")
  case True
  then show ?thesis by (simp add: main_files)
next
  case False
  let ?l = "''[branding] using source icon: '' @ SOURCE_ICON_PATH w"
  let ?s1 = "print_line ?l s"
  have m: "files (snd (main w s))
          = files (snd (build_icons_from_source w (SOURCE_ICON_PATH w) ?s1))"
    using False by (simp only: main_files if_False)
  have "fst (build_icons_from_source w (SOURCE_ICON_PATH w) ?s1) = Inl e"
    using assms False by (simp only: main_result if_False) (simp split: sum.splits)
  from build_failure_keeps_composited [OF this]
  show ?thesis unfolding m by (simp add: print_line_fields)
qed

lemma linux_main:
  assumes "files s ''/repo/branding/source/app-icon.png'' = Some master_bytes"
  shows "fst (main linux_world s)
           = Inl (RuntimeError
               ''[branding] macOS standard icon mask extraction requires macOS.'')"
proof -
  let ?p = "''/repo/branding/source/app-icon.png''"
  let ?s1 = "print_line (''[branding] using source icon: '' @ SOURCE_ICON_PATH linux_world) s"
  have sp: "SOURCE_ICON_PATH linux_world = ?p"
    by (simp add: demo_paths linux_world_fields)
  have f: "files ?s1 ?p = Some master_bytes"
    using assms by (simp add: print_line_fields)
  have n: "?p \<noteq> RENDERER_ICON_PATH linux_world" "?p \<noteq> DESKTOP_SOURCE_COPY_PATH linux_world"
    by (simp_all add: demo_paths linux_world_fields)
  have o: "open_rgba linux_world master_bytes = Inr (Image_new ''RGBA'' (2, 2) (255, 0, 0, 255))"
    by (simp add: linux_world_fields demo_open_rgba_def)
  have l: "load_macos_standard_mask linux_world t
             = (Inl (RuntimeError
                  ''[branding] macOS standard icon mask extraction requires macOS.''), t)" for t
    by (simp add: load_macos_standard_mask_def linux_world_fields)
  have b: "fst (build_icons_from_source linux_world ?p ?s1)
             = Inl (RuntimeError
                 ''[branding] macOS standard icon mask extraction requires macOS.'')"
    using build_icons_from_source_unfold [OF f n] o l by simp
  show ?thesis
    using b assms by (simp only: main_result sp) simp
qed

text \<open>
  C9, as the script has it.  With the world fixed (the same platform, candidate bundles
  and tools, each of them taken as a function of its input), two runs of \<^verbatim>\<open>main\<close> from
  states that agree on the master file end alike: both succeed, or both fail with the same
  error.  When they succeed, all five output files hold the same bytes in both, whatever
  the states held before, and a second run started from the state the first one left
  succeeds again and regenerates the same five files.  When the master file exists, the two
  source copies hold its bytes after either run, successful or not.  A failing run writes
  none of the three composited files: each keeps what it held before that run, so after
  two failing runs they can differ (see the counterexample below).
\<close>

theorem pipeline_is_deterministic:
  assumes "files s1 (SOURCE_ICON_PATH w) = files s2 (SOURCE_ICON_PATH w)"
  shows "fst (main w s1) = fst (main w s2)
       \<and> (fst (main w s1) = Inr () \<longrightarrow>
            (\<forall>out \<in> set (OUTPUT_PATHS w).
               files (snd (main w s1)) out = files (snd (main w s2)) out))
       \<and> (fst (main w s1) = Inr () \<longrightarrow>
            fst (main w (snd (main w s1))) = Inr ()
          \<and> (\<forall>out \<in> set (OUTPUT_PATHS w).
               files (snd (main w (snd (main w s1)))) out = files (snd (main w s1)) out))
       \<and> (files s1 (SOURCE_ICON_PATH w) \<noteq> None \<longrightarrow>
            files (snd (main w s1)) (RENDERER_ICON_PATH w) = files s1 (SOURCE_ICON_PATH w)
          \<and> files (snd (main w s1)) (DESKTOP_SOURCE_COPY_PATH w) = files s1 (SOURCE_ICON_PATH w)
          \<and> files (snd (main w s2)) (RENDERER_ICON_PATH w) = files s1 (SOURCE_ICON_PATH w)
          \<and> files (snd (main w s2)) (DESKTOP_SOURCE_COPY_PATH w)
              = files s1 (SOURCE_ICON_PATH w))
       \<and> (\<forall>e. fst (main w s1) = Inl e \<longrightarrow>
            files (snd (main w s1)) (DESKTOP_ICON_PNG_PATH w) = files s1 (DESKTOP_ICON_PNG_PATH w)
          \<and> files (snd (main w s1)) (DESKTOP_ICON_ICO_PATH w) = files s1 (DESKTOP_ICON_ICO_PATH w)
          \<and> files (snd (main w s1)) (DESKTOP_ICON_ICNS_PATH w)
              = files s1 (DESKTOP_ICON_ICNS_PATH w))"
proof -
  have two: "fst (main w t1) = fst (main w t2)
       \<and> (fst (main w t1) = Inr () \<longrightarrow>
            (\<forall>out \<in> set (OUTPUT_PATHS w).
               files (snd (main w t1)) out = files (snd (main w t2)) out))"
    if eq: "files t1 (SOURCE_ICON_PATH w) = files t2 (SOURCE_ICON_PATH w)" for t1 t2
  proof -
    let ?l = "''[branding] using source icon: '' @ SOURCE_ICON_PATH w"
    have e: "files (print_line ?l t1) (SOURCE_ICON_PATH w)
               = files (print_line ?l t2) (SOURCE_ICON_PATH w)"
      using eq by (simp add: print_line_fields)
    have res: "fst (main w t1) = fst (main w t2)"
      using build_icons_from_source_same_result [OF e, of w] eq by (simp add: main_result)
    have outs: "files (snd (main w t1)) out = files (snd (main w t2)) out"
      if ok: "fst (main w t1) = Inr ()" and o: "out \<in> set (OUTPUT_PATHS w)" for out
    proof -
      have ex: "files t1 (SOURCE_ICON_PATH w) \<noteq> None"
        using ok by (auto simp: main_result split: if_splits)
      then obtain r where "fst (build_icons_from_source w (SOURCE_ICON_PATH w)
                                  (print_line ?l t1)) = Inr r"
        using ok by (auto simp: main_result split: sum.splits)
      from build_icons_from_source_same_outputs [OF e this o]
      have same: "files (snd (build_icons_from_source w (SOURCE_ICON_PATH w) (print_line ?l t1))) out
          = files (snd (build_icons_from_source w (SOURCE_ICON_PATH w) (print_line ?l t2))) out" .
      have ex2: "files t2 (SOURCE_ICON_PATH w) \<noteq> None"
        using ex eq by simp
      have m1: "files (snd (main w t1))
          = files (snd (build_icons_from_source w (SOURCE_ICON_PATH w) (print_line ?l t1)))"
        using ex by (simp only: main_files if_False)
      have m2: "files (snd (main w t2))
          = files (snd (build_icons_from_source w (SOURCE_ICON_PATH w) (print_line ?l t2)))"
        using ex2 by (simp only: main_files if_False)
      show ?thesis unfolding m1 m2 by (rule same)
    qed
    show ?thesis using res outs by blast
  qed
  have again: "files (snd (main w s1)) (SOURCE_ICON_PATH w) = files s1 (SOURCE_ICON_PATH w)"
    if ok: "fst (main w s1) = Inr ()"
    using main_keeps_source [OF ok] .
  have first: "fst (main w s1) = fst (main w s2)" using two [OF assms] by blast
  have second: "fst (main w s1) = Inr () \<longrightarrow>
            (\<forall>out \<in> set (OUTPUT_PATHS w).
               files (snd (main w s1)) out = files (snd (main w s2)) out)"
    using two [OF assms] by blast
  have third: "fst (main w s1) = Inr () \<longrightarrow>
            fst (main w (snd (main w s1))) = Inr ()
          \<and> (\<forall>out \<in> set (OUTPUT_PATHS w).
               files (snd (main w (snd (main w s1)))) out = files (snd (main w s1)) out)"
  proof
    assume ok: "fst (main w s1) = Inr ()"
    from two [OF again [OF ok]] ok
    have r: "fst (main w (snd (main w s1))) = Inr ()" by simp
    with two [OF again [OF ok, symmetric]] ok
    have "\<forall>out \<in> set (OUTPUT_PATHS w).
               files (snd (main w (snd (main w s1)))) out = files (snd (main w s1)) out"
      by simp
    with r show "fst (main w (snd (main w s1))) = Inr ()
          \<and> (\<forall>out \<in> set (OUTPUT_PATHS w).
               files (snd (main w (snd (main w s1)))) out = files (snd (main w s1)) out)"
      by (rule conjI)
  qed
  have fourth: "files s1 (SOURCE_ICON_PATH w) \<noteq> None \<longrightarrow>
            files (snd (main w s1)) (RENDERER_ICON_PATH w) = files s1 (SOURCE_ICON_PATH w)
          \<and> files (snd (main w s1)) (DESKTOP_SOURCE_COPY_PATH w) = files s1 (SOURCE_ICON_PATH w)
          \<and> files (snd (main w s2)) (RENDERER_ICON_PATH w) = files s1 (SOURCE_ICON_PATH w)
          \<and> files (snd (main w s2)) (DESKTOP_SOURCE_COPY_PATH w)
              = files s1 (SOURCE_ICON_PATH w)"
    using main_copies [of s1 w] main_copies [of s2 w] assms by auto
  have fifth: "\<forall>e. fst (main w s1) = Inl e \<longrightarrow>
            files (snd (main w s1)) (DESKTOP_ICON_PNG_PATH w) = files s1 (DESKTOP_ICON_PNG_PATH w)
          \<and> files (snd (main w s1)) (DESKTOP_ICON_ICO_PATH w) = files s1 (DESKTOP_ICON_ICO_PATH w)
          \<and> files (snd (main w s1)) (DESKTOP_ICON_ICNS_PATH w)
              = files s1 (DESKTOP_ICON_ICNS_PATH w)"
    using main_failure_keeps_composited by blast
  show ?thesis
    using first second third fourth fifth by blast
qed

theorem pipeline_is_deterministic_witness:
  "files fresh_state ''/repo/branding/source/app-icon.png''
     = files stale_state ''/repo/branding/source/app-icon.png''
   \<and> files fresh_state ''/repo/public/branding/app-icon-desktop.png'' = None
   \<and> files stale_state ''/repo/public/branding/app-icon-desktop.png'' = Some [8]
   \<and> fst (main mac_world fresh_state) = Inr ()
   \<and> fst (main mac_world stale_state) = Inr ()
   \<and> files (snd (main mac_world fresh_state)) ''/repo/public/branding/app-icon-desktop.png''
       = Some [1]
   \<and> files (snd (main mac_world stale_state)) ''/repo/public/branding/app-icon-desktop.png''
       = Some [1]
   \<and> fst (main mac_world (snd (main mac_world fresh_state))) = Inr ()
   \<and> files (snd (main mac_world (snd (main mac_world fresh_state))))
        ''/repo/public/branding/app-icon-desktop.png'' = Some [1]
   \<and> fst (main linux_world fresh_state)
       = Inl (RuntimeError ''[branding] macOS standard icon mask extraction requires macOS.'')
   \<and> fst (main linux_world stale_state)
       = Inl (RuntimeError ''[branding] macOS standard icon mask extraction requires macOS.'')
   \<and> files (snd (main linux_world fresh_state))
        ''/repo/src/renderer/public/branding/app-icon.png'' = Some master_bytes
   \<and> files (snd (main linux_world stale_state))
        ''/repo/src/renderer/public/branding/app-icon.png'' = Some master_bytes
   \<and> files (snd (main linux_world fresh_state)) ''/repo/public/branding/app-icon-desktop.png''
       = None"
proof -
  have e: "files fresh_state (SOURCE_ICON_PATH mac_world)
             = files stale_state (SOURCE_ICON_PATH mac_world)"
    by (simp add: demo_paths mac_world_fields fresh_state_files stale_state_files)
  have o: "''/repo/public/branding/app-icon-desktop.png'' \<in> set (OUTPUT_PATHS mac_world)"
    by (simp add: OUTPUT_PATHS_def demo_paths mac_world_fields)
  note d = pipeline_is_deterministic [OF e]
  note f = mac_main_outputs [OF fresh_state_files(1)]
  have r2: "fst (main mac_world stale_state) = Inr ()"
    using d f(1) by simp
  have p2: "files (snd (main mac_world stale_state)) ''/repo/public/branding/app-icon-desktop.png''
       = Some [1]"
    using d f(1) f(4) o by (metis)
  have r3: "fst (main mac_world (snd (main mac_world fresh_state))) = Inr ()"
    using d f(1) by blast
  have p3: "files (snd (main mac_world (snd (main mac_world fresh_state))))
        ''/repo/public/branding/app-icon-desktop.png'' = Some [1]"
    using d f(1) f(4) o by (metis)
  have e': "files fresh_state (SOURCE_ICON_PATH linux_world)
             = files stale_state (SOURCE_ICON_PATH linux_world)"
    by (simp add: demo_paths linux_world_fields fresh_state_files stale_state_files)
  note k = pipeline_is_deterministic [OF e']
  have ex: "files fresh_state (SOURCE_ICON_PATH linux_world) = Some master_bytes"
    by (simp add: demo_paths linux_world_fields fresh_state_files)
  have l1: "fst (main linux_world fresh_state)
       = Inl (RuntimeError ''[branding] macOS standard icon mask extraction requires macOS.'')"
    by (rule linux_main [OF fresh_state_files(1)])
  have l2: "fst (main linux_world stale_state)
       = Inl (RuntimeError ''[branding] macOS standard icon mask extraction requires macOS.'')"
    using k l1 by simp
  have c: "files (snd (main linux_world fresh_state)) (RENDERER_ICON_PATH linux_world)
             = Some master_bytes
         \<and> files (snd (main linux_world stale_state)) (RENDERER_ICON_PATH linux_world)
             = Some master_bytes"
    using k ex by simp
  have u: "files (snd (main linux_world fresh_state)) (DESKTOP_ICON_PNG_PATH linux_world)
             = files fresh_state (DESKTOP_ICON_PNG_PATH linux_world)"
    using k l1 by blast
  show ?thesis
    using f(1) f(4) r2 p2 r3 p3 l1 l2 c u
    by (simp add: fresh_state_files stale_state_files demo_paths linux_world_fields)
qed

text \<open>
  C9 as stated fails: on a machine that is not a Mac, a run on a fresh project and a run on
  a project holding older outputs have the same master file and the same candidate state,
  fail alike, and leave different contents in the composited PNG.
\<close>

theorem failed_runs_keep_stale_outputs_counterexample:
  "files fresh_state ''/repo/branding/source/app-icon.png''
     = files stale_state ''/repo/branding/source/app-icon.png''
   \<and> fst (main linux_world fresh_state)
       = Inl (RuntimeError ''[branding] macOS standard icon mask extraction requires macOS.'')
   \<and> fst (main linux_world stale_state)
       = Inl (RuntimeError ''[branding] macOS standard icon mask extraction requires macOS.'')
   \<and> files (snd (main linux_world fresh_state)) ''/repo/public/branding/app-icon-desktop.png''
       = None
   \<and> files (snd (main linux_world stale_state)) ''/repo/public/branding/app-icon-desktop.png''
       = Some [8]"
proof -
  have l1: "fst (main linux_world fresh_state)
       = Inl (RuntimeError ''[branding] macOS standard icon mask extraction requires macOS.'')"
    by (rule linux_main [OF fresh_state_files(1)])
  have l2: "fst (main linux_world stale_state)
       = Inl (RuntimeError ''[branding] macOS standard icon mask extraction requires macOS.'')"
    by (rule linux_main [OF stale_state_files(1)])
  show ?thesis
    using l1 l2 main_failure_keeps_composited [OF l1] main_failure_keeps_composited [OF l2]
    by (simp add: fresh_state_files stale_state_files demo_paths linux_world_fields)
qed

subsection \<open>The largest PNG of an iconset\<close>

lemma getbbox_zero_pix:
  assumes "\<And>x y. im_pix im x y = 0"
  shows "getbbox im = None"
  using assms by (simp add: getbbox_def nonzero_columns_def nonzero_rows_def list_ex_iff)

lemma select_largest_icon_png_loop_max:
  "select_largest_icon_png_loop w xs lp la = Inr res \<Longrightarrow>
     (res = lp \<and> (\<forall>q \<in> set xs. \<forall>a b. open_size w (snd q) = Inr (a, b) \<longrightarrow> int a * int b \<le> la))
     \<or> (\<exists>p a b. res = Some p \<and> p \<in> set xs \<and> open_size w (snd p) = Inr (a, b)
           \<and> la < int a * int b
           \<and> (\<forall>q \<in> set xs. \<forall>a' b'. open_size w (snd q) = Inr (a', b') \<longrightarrow>
                 int a' * int b' \<le> int a * int b))"
proof (induction xs arbitrary: lp la)
  case Nil
  then show ?case by simp
next
  case (Cons x xs)
  show ?case
  proof (cases "open_size w (snd x)")
    case (Inl e)
    then have "select_largest_icon_png_loop w xs lp la = Inr res"
      using Cons.prems by (simp split: if_splits)
    from Cons.IH [OF this] show ?thesis using Inl by auto
  next
    case (Inr sz)
    obtain a b where sz: "sz = (a, b)" by (cases sz)
    show ?thesis
    proof (cases "int a * int b > la")
      case True
      then have "select_largest_icon_png_loop w xs (Some x) (int a * int b) = Inr res"
        using Cons.prems Inr sz by (simp add: Let_def)
      from Cons.IH [OF this] show ?thesis
      proof
        assume h: "res = Some x \<and> (\<forall>q\<in>set xs. \<forall>a' b'. open_size w (snd q) = Inr (a', b') \<longrightarrow>
                       int a' * int b' \<le> int a * int b)"
        have "res = Some x \<and> x \<in> set (x # xs) \<and> open_size w (snd x) = Inr (a, b)
           \<and> la < int a * int b
           \<and> (\<forall>q \<in> set (x # xs). \<forall>a' b'. open_size w (snd q) = Inr (a', b') \<longrightarrow>
                 int a' * int b' \<le> int a * int b)"
          using h True Inr sz by auto
        then show ?thesis by blast
      next
        assume "\<exists>p a' b'. res = Some p \<and> p \<in> set xs \<and> open_size w (snd p) = Inr (a', b')
           \<and> int a * int b < int a' * int b'
           \<and> (\<forall>q \<in> set xs. \<forall>a'' b''. open_size w (snd q) = Inr (a'', b'') \<longrightarrow>
                 int a'' * int b'' \<le> int a' * int b')"
        then obtain p a' b' where p: "res = Some p" "p \<in> set xs"
          "open_size w (snd p) = Inr (a', b')" "int a * int b < int a' * int b'"
          "\<forall>q \<in> set xs. \<forall>a'' b''. open_size w (snd q) = Inr (a'', b'') \<longrightarrow>
                 int a'' * int b'' \<le> int a' * int b'"
          by blast
        have "res = Some p \<and> p \<in> set (x # xs) \<and> open_size w (snd p) = Inr (a', b')
           \<and> la < int a' * int b'
           \<and> (\<forall>q \<in> set (x # xs). \<forall>a'' b''. open_size w (snd q) = Inr (a'', b'') \<longrightarrow>
                 int a'' * int b'' \<le> int a' * int b')"
          using p True Inr sz by auto
        then show ?thesis by blast
      qed
    next
      case False
      then have "select_largest_icon_png_loop w xs lp la = Inr res"
        using Cons.prems Inr sz by (simp add: Let_def)
      from Cons.IH [OF this] show ?thesis using False Inr sz by auto
    qed
  qed
qed

lemma select_largest_icon_png_max:
  assumes "select_largest_icon_png w iconset_dir = Inr (Some p)"
  shows "p \<in> set (glob_png iconset_dir)
       \<and> (\<exists>a b. open_size w (snd p) = Inr (a, b)
            \<and> (\<forall>q \<in> set (glob_png iconset_dir). \<forall>a' b'.
                  open_size w (snd q) = Inr (a', b') \<longrightarrow> a' * b' \<le> a * b))"
proof -
  from select_largest_icon_png_loop_max [OF assms [unfolded select_largest_icon_png_def]]
  obtain a b where p: "p \<in> set (glob_png iconset_dir)" "open_size w (snd p) = Inr (a, b)"
    "\<forall>q \<in> set (glob_png iconset_dir). \<forall>a' b'. open_size w (snd q) = Inr (a', b') \<longrightarrow>
         int a' * int b' \<le> int a * int b"
    by auto
  have "\<forall>q \<in> set (glob_png iconset_dir). \<forall>a' b'.
                  open_size w (snd q) = Inr (a', b') \<longrightarrow> a' * b' \<le> a * b"
  proof (intro ballI allI impI)
    fix q a' b'
    assume "q \<in> set (glob_png iconset_dir)" "open_size w (snd q) = Inr (a', b')"
    with p(3) have "int a' * int b' \<le> int a * int b" by blast
    then have "int (a' * b') \<le> int (a * b)" by simp
    then show "a' * b' \<le> a * b" by (simp only: of_nat_le_iff)
  qed
  with p show ?thesis by blast
qed

lemma select_largest_icon_png_none:
  assumes "select_largest_icon_png w iconset_dir = Inr None"
      and "q \<in> set (glob_png iconset_dir)"
  shows "\<exists>e. open_size w (snd q) = Inl e \<and> is_OSError e"
proof -
  from select_largest_icon_png_loop_max [OF assms(1) [unfolded select_largest_icon_png_def]]
  have n: "\<forall>q \<in> set (glob_png iconset_dir). \<forall>a b. open_size w (snd q) = Inr (a, b) \<longrightarrow>
             int a * int b \<le> - 1"
    by auto
  have "\<not> (\<exists>a b. open_size w (snd q) = Inr (a, b))"
  proof
    assume "\<exists>a b. open_size w (snd q) = Inr (a, b)"
    then obtain a b where "open_size w (snd q) = Inr (a, b)" by blast
    with n assms(2) have "int a * int b \<le> - 1" by blast
    moreover have "0 \<le> int a * int b" by simp
    ultimately show False by linarith
  qed
  then obtain e where e: "open_size w (snd q) = Inl e"
    by (cases "open_size w (snd q)") auto
  have "is_OSError e"
  proof (rule ccontr)
    assume ne: "\<not> is_OSError e"
    have raise: "q \<in> set xs \<Longrightarrow> \<exists>r. select_largest_icon_png_loop w xs lp la = Inl r"
      for xs lp la
    proof (induction xs arbitrary: lp la)
      case Nil
      then show ?case by simp
    next
      case (Cons x xs)
      show ?case
      proof (cases "x = q")
        case True
        then show ?thesis using e ne by simp
      next
        case False
        then have "q \<in> set xs" using Cons.prems by simp
        from Cons.IH [OF this] show ?thesis
          by (cases "open_size w (snd x)") (auto simp: Let_def split: prod.splits)
      qed
    qed
    from raise [OF assms(2), of None "- 1"] assms(1) show False
      by (simp add: select_largest_icon_png_def)
  qed
  with e show ?thesis by blast
qed

subsection \<open>One turn of a candidate loop\<close>

lemma car_loop_next:
  assumes "fst (load_macos_container_bbox_candidate w ip c s) = Next_candidate m"
  shows "load_macos_container_bbox_loop w ip (c # rest) errs s
           = load_macos_container_bbox_loop w ip rest (errs @ [m])
               (snd (load_macos_container_bbox_candidate w ip c s))"
  using assms by (cases "load_macos_container_bbox_candidate w ip c s") simp

lemma car_loop_return:
  assumes "fst (load_macos_container_bbox_candidate w ip c s) = Return r"
  shows "load_macos_container_bbox_loop w ip (c # rest) errs s
           = (Inr r, snd (load_macos_container_bbox_candidate w ip c s))"
  using assms by (cases "load_macos_container_bbox_candidate w ip c s") simp




lemma icns_loop_raise:
  assumes "fst (load_macos_rounded_shape_mask_candidate w ip c s) = Raise e"
  shows "load_macos_rounded_shape_mask_loop w ip (c # rest) errs s
           = (Inl e, snd (load_macos_rounded_shape_mask_candidate w ip c s))"
  using assms by (cases "load_macos_rounded_shape_mask_candidate w ip c s") simp

lemma empty_first_world_fields:
  "path_exists empty_first_world = (\<lambda>p. True)"
  "iconutil empty_first_world = (\<lambda>tool input icon.
        if input = hd MACOS_ICON_CAR_CANDIDATES then Inr [(''icon_512x512@2x.png'', [3])]
        else if input = hd MACOS_ICON_ICNS_CANDIDATES then Inr [(''icon_16x16.png'', [3])]
        else demo_iconutil tool input icon)"
  "open_size empty_first_world = demo_open_size"
  "open_alpha empty_first_world = demo_open_alpha"
  "resize_lanczos empty_first_world = nearest"
  by (simp_all add: empty_first_world_def mac_world_fields)

lemma empty_first_car1:
  "fst (load_macos_container_bbox_candidate empty_first_world ip
          ''/System/Applications/App Store.app/Contents/Resources/Assets.car'' s)
     = Next_candidate (''/System/Applications/App Store.app/Contents/Resources/Assets.car''
                        @ '': extracted alpha mask is empty'')"
proof -
  have z: "getbbox (resize empty_first_world (Image_new ''L'' (2, 2) 0) (1024, 1024)) = None"
    by (rule getbbox_zero_pix)
       (simp add: resize_def empty_first_world_fields nearest_def Image_new_def)
  have i: "iconutil empty_first_world ip
             ''/System/Applications/App Store.app/Contents/Resources/Assets.car''
             (Some ICONSET_SOURCE_ICON_NAME) = Inr [(''icon_512x512@2x.png'', [3])]"
    by (simp add: empty_first_world_fields MACOS_ICON_CAR_CANDIDATES_def)
  have o: "open_alpha empty_first_world [3] = Inr (Image_new ''L'' (2, 2) 0)"
    by (simp add: empty_first_world_fields demo_open_alpha_def)
  have sz: "im_width (Image_new ''L'' (2, 2) (0::nat)) = 2"
    "im_height (Image_new ''L'' (2, 2) (0::nat)) = 2"
    by (simp_all add: Image_new_def)
  show ?thesis
    by (simp add: load_macos_container_bbox_candidate_def extract_iconset_from_assets_car_def
      TemporaryDirectory_def Let_def i o sz z ICON_CANVAS_SIZE_def
      ICONSET_SOURCE_PNG_NAME_def empty_first_world_fields(1))
qed

lemma empty_first_car2:
  "fst (load_macos_container_bbox_candidate empty_first_world ip
          ''/System/Applications/Notes.app/Contents/Resources/Assets.car'' s)
     = Return ((0, 0, 1024, 1024),
               ''/System/Applications/Notes.app/Contents/Resources/Assets.car'')"
proof -
  have i: "iconutil empty_first_world ip
             ''/System/Applications/Notes.app/Contents/Resources/Assets.car''
             (Some ICONSET_SOURCE_ICON_NAME) = Inr [(''icon_512x512@2x.png'', [1])]"
    by (simp add: empty_first_world_fields MACOS_ICON_CAR_CANDIDATES_def
        MACOS_ICON_ICNS_CANDIDATES_def demo_iconutil_def)
  have o: "open_alpha empty_first_world [1] = Inr (Image_new ''L'' (1024, 1024) 255)"
    by (simp add: empty_first_world_fields demo_open_alpha_def)
  have sz: "im_width (Image_new ''L'' (1024, 1024) (255::nat)) = 1024"
    "im_height (Image_new ''L'' (1024, 1024) (255::nat)) = 1024"
    by (simp_all add: Image_new_def)
  have g: "getbbox (Image_new ''L'' (1024, 1024) (255::nat)) = Some (0, 0, 1024, 1024)"
    by (simp add: getbbox_Image_new_nonzero)
  show ?thesis
    by (simp add: load_macos_container_bbox_candidate_def extract_iconset_from_assets_car_def
      TemporaryDirectory_def Let_def i o sz g ICON_CANVAS_SIZE_def
      ICONSET_SOURCE_PNG_NAME_def empty_first_world_fields(1))
qed

lemma empty_first_container:
  "fst (load_macos_container_bbox empty_first_world ip s)
     = Inr ((0, 0, 1024, 1024),
            ''/System/Applications/Notes.app/Contents/Resources/Assets.car'')"
  unfolding load_macos_container_bbox_def MACOS_ICON_CAR_CANDIDATES_def
  by (simp only: car_loop_next [OF empty_first_car1] car_loop_return [OF empty_first_car2] fst_conv)

subsection \<open>The largest PNG, and a candidate with an empty alpha channel\<close>

text \<open>
  C7.  When \<^verbatim>\<open>select_largest_icon_png\<close> returns a file, it is one of the PNGs of the
  iconset directory, it could be opened, and no PNG of the directory that can be opened has
  a larger area (width times height).  In both loaders a candidate whose alpha channel has
  no bounding box (\<^verbatim>\<open>getbbox()\<close> is \<^verbatim>\<open>None\<close>) ends its turn with the message
  \<^verbatim>\<open>extracted alpha mask is empty\<close>, and the loop goes on with the remaining candidates
  and that message appended, from the state the turn left.
\<close>

theorem largest_png_and_empty_alpha:
  "(\<forall>p. select_largest_icon_png w iconset_dir = Inr (Some p) \<longrightarrow>
       p \<in> set (glob_png iconset_dir)
     \<and> (\<exists>a b. open_size w (snd p) = Inr (a, b)
            \<and> (\<forall>q \<in> set (glob_png iconset_dir). \<forall>a' b'.
                  open_size w (snd q) = Inr (a', b') \<longrightarrow> a' * b' \<le> a * b)))
   \<and> (\<forall>listing data opened.
         path_exists w c \<and> iconutil w ip c (Some ICONSET_SOURCE_ICON_NAME) = Inr listing
       \<and> map_of listing ICONSET_SOURCE_PNG_NAME = Some data \<and> open_alpha w data = Inr opened
       \<and> getbbox (if (im_width opened, im_height opened) \<noteq> (ICON_CANVAS_SIZE, ICON_CANVAS_SIZE)
                   then resize w opened (ICON_CANVAS_SIZE, ICON_CANVAS_SIZE) else opened) = None
       \<longrightarrow>
         fst (load_macos_container_bbox_candidate w ip c s)
           = Next_candidate (c @ '': extracted alpha mask is empty'')
       \<and> load_macos_container_bbox_loop w ip (c # rest) errs s
           = load_macos_container_bbox_loop w ip rest
               (errs @ [c @ '': extracted alpha mask is empty''])
               (snd (load_macos_container_bbox_candidate w ip c s)))
   \<and> (\<forall>listing p alpha.
         path_exists w c \<and> iconutil w ip c None = Inr listing
       \<and> select_largest_icon_png w listing = Inr (Some p) \<and> open_alpha w (snd p) = Inr alpha
       \<and> getbbox alpha = None
       \<longrightarrow>
         fst (load_macos_rounded_shape_mask_candidate w ip c s)
           = Next_candidate (c @ '': extracted alpha mask is empty'')
       \<and> load_macos_rounded_shape_mask_loop w ip (c # rest) errs s
           = load_macos_rounded_shape_mask_loop w ip rest
               (errs @ [c @ '': extracted alpha mask is empty''])
               (snd (load_macos_rounded_shape_mask_candidate w ip c s)))"
proof (intro conjI allI impI)
  fix p
  assume "select_largest_icon_png w iconset_dir = Inr (Some p)"
  from select_largest_icon_png_max [OF this]
  show "p \<in> set (glob_png iconset_dir)"
    and "\<exists>a b. open_size w (snd p) = Inr (a, b)
            \<and> (\<forall>q \<in> set (glob_png iconset_dir). \<forall>a' b'.
                  open_size w (snd q) = Inr (a', b') \<longrightarrow> a' * b' \<le> a * b)"
    by blast+
next
  fix listing data opened
  assume a: "path_exists w c \<and> iconutil w ip c (Some ICONSET_SOURCE_ICON_NAME) = Inr listing
       \<and> map_of listing ICONSET_SOURCE_PNG_NAME = Some data \<and> open_alpha w data = Inr opened
       \<and> getbbox (if (im_width opened, im_height opened) \<noteq> (ICON_CANVAS_SIZE, ICON_CANVAS_SIZE)
                   then resize w opened (ICON_CANVAS_SIZE, ICON_CANVAS_SIZE) else opened) = None"
  then show f: "fst (load_macos_container_bbox_candidate w ip c s)
           = Next_candidate (c @ '': extracted alpha mask is empty'')"
    by (simp add: load_macos_container_bbox_candidate_def extract_iconset_from_assets_car_def
        TemporaryDirectory_def Let_def split: if_splits)
  then show "load_macos_container_bbox_loop w ip (c # rest) errs s
           = load_macos_container_bbox_loop w ip rest
               (errs @ [c @ '': extracted alpha mask is empty''])
               (snd (load_macos_container_bbox_candidate w ip c s))"
    by (cases "load_macos_container_bbox_candidate w ip c s") simp
next
  fix listing p alpha
  assume a: "path_exists w c \<and> iconutil w ip c None = Inr listing
       \<and> select_largest_icon_png w listing = Inr (Some p) \<and> open_alpha w (snd p) = Inr alpha
       \<and> getbbox alpha = None"
  then show f: "fst (load_macos_rounded_shape_mask_candidate w ip c s)
           = Next_candidate (c @ '': extracted alpha mask is empty'')"
    by (simp add: load_macos_rounded_shape_mask_candidate_def extract_iconset_from_icns_def
        TemporaryDirectory_def Let_def)
  then show "load_macos_rounded_shape_mask_loop w ip (c # rest) errs s
           = load_macos_rounded_shape_mask_loop w ip rest
               (errs @ [c @ '': extracted alpha mask is empty''])
               (snd (load_macos_rounded_shape_mask_candidate w ip c s))"
    by (cases "load_macos_rounded_shape_mask_candidate w ip c s") simp
qed

theorem largest_png_and_empty_alpha_witness:
  "select_largest_icon_png mac_world demo_icns_listing = Inr (Some (''icon_32x32.png'', [2]))
   \<and> (''icon_32x32.png'', [2]) \<in> set (glob_png demo_icns_listing)
   \<and> open_size mac_world [2] = Inr (3, 3)
   \<and> open_size mac_world [3] = Inr (2, 2)
   \<and> fst (load_macos_container_bbox_candidate empty_first_world ''/usr/bin/iconutil''
            ''/System/Applications/App Store.app/Contents/Resources/Assets.car'' fresh_state)
       = Next_candidate (''/System/Applications/App Store.app/Contents/Resources/Assets.car''
                          @ '': extracted alpha mask is empty'')
   \<and> fst (load_macos_container_bbox empty_first_world ''/usr/bin/iconutil'' fresh_state)
       = Inr ((0, 0, 1024, 1024),
              ''/System/Applications/Notes.app/Contents/Resources/Assets.car'')
   \<and> fst (load_macos_rounded_shape_mask_candidate empty_first_world ''/usr/bin/iconutil''
            ''/System/Applications/App Store.app/Contents/Resources/AppIcon.icns'' fresh_state)
       = Next_candidate (''/System/Applications/App Store.app/Contents/Resources/AppIcon.icns''
                          @ '': extracted alpha mask is empty'')"
proof -
  let ?car = "''/System/Applications/App Store.app/Contents/Resources/Assets.car''"
  let ?icns = "''/System/Applications/App Store.app/Contents/Resources/AppIcon.icns''"
  note t0 = largest_png_and_empty_alpha [of mac_world demo_icns_listing,
              THEN conjunct1, rule_format, OF demo_select_largest]
  note t = largest_png_and_empty_alpha [of empty_first_world _
             ?car "''/usr/bin/iconutil''" fresh_state "[]" "[]",
             THEN conjunct2, THEN conjunct1, rule_format]
  note t2 = largest_png_and_empty_alpha [of empty_first_world _
             ?icns "''/usr/bin/iconutil''" fresh_state "[]" "[]",
             THEN conjunct2, THEN conjunct2, rule_format]
  have sel: "(''icon_32x32.png'', [2]) \<in> set (glob_png demo_icns_listing)"
    using t0 by (rule conjunct1)
  have e: "path_exists empty_first_world ?car"
    by (simp add: empty_first_world_fields)
  have i: "iconutil empty_first_world ''/usr/bin/iconutil'' ?car (Some ICONSET_SOURCE_ICON_NAME)
             = Inr [(''icon_512x512@2x.png'', [3])]"
    by (simp add: empty_first_world_fields MACOS_ICON_CAR_CANDIDATES_def)
  have m: "map_of [(''icon_512x512@2x.png'', [3::8 word])] ICONSET_SOURCE_PNG_NAME = Some [3]"
    by (simp add: ICONSET_SOURCE_PNG_NAME_def)
  have o: "open_alpha empty_first_world [3] = Inr (Image_new ''L'' (2, 2) 0)"
    by (simp add: empty_first_world_fields demo_open_alpha_def)
  have z: "getbbox (if (im_width (Image_new ''L'' (2, 2) (0::nat)),
                        im_height (Image_new ''L'' (2, 2) (0::nat)))
                         \<noteq> (ICON_CANVAS_SIZE, ICON_CANVAS_SIZE)
                    then resize empty_first_world (Image_new ''L'' (2, 2) 0)
                           (ICON_CANVAS_SIZE, ICON_CANVAS_SIZE)
                    else Image_new ''L'' (2, 2) 0) = None"
    by (rule getbbox_zero_pix)
       (simp add: resize_def empty_first_world_fields nearest_def Image_new_def)
  have h: "path_exists empty_first_world ?car
       \<and> iconutil empty_first_world ''/usr/bin/iconutil'' ?car (Some ICONSET_SOURCE_ICON_NAME)
           = Inr [(''icon_512x512@2x.png'', [3])]
       \<and> map_of [(''icon_512x512@2x.png'', [3::8 word])] ICONSET_SOURCE_PNG_NAME = Some [3]
       \<and> open_alpha empty_first_world [3] = Inr (Image_new ''L'' (2, 2) 0)
       \<and> getbbox (if (im_width (Image_new ''L'' (2, 2) (0::nat)),
                        im_height (Image_new ''L'' (2, 2) (0::nat)))
                         \<noteq> (ICON_CANVAS_SIZE, ICON_CANVAS_SIZE)
                    then resize empty_first_world (Image_new ''L'' (2, 2) 0)
                           (ICON_CANVAS_SIZE, ICON_CANVAS_SIZE)
                    else Image_new ''L'' (2, 2) 0) = None"
    by (intro conjI) (rule e i m o z)+
  have c1: "fst (load_macos_container_bbox_candidate empty_first_world ''/usr/bin/iconutil''
            ?car fresh_state) = Next_candidate (?car @ '': extracted alpha mask is empty'')"
    using t [OF h] by (rule conjunct1)
  have e2: "path_exists empty_first_world ?icns"
    by (simp add: empty_first_world_fields)
  have i2: "iconutil empty_first_world ''/usr/bin/iconutil'' ?icns None
             = Inr [(''icon_16x16.png'', [3])]"
    by (simp add: empty_first_world_fields MACOS_ICON_CAR_CANDIDATES_def
        MACOS_ICON_ICNS_CANDIDATES_def)
  have s2: "select_largest_icon_png empty_first_world [(''icon_16x16.png'', [3])]
              = Inr (Some (''icon_16x16.png'', [3]))"
    by (simp add: select_largest_icon_png_def glob_png_def suffix_def
        empty_first_world_fields demo_open_size_def)
  have o2: "open_alpha empty_first_world (snd (''icon_16x16.png'', [3::8 word]))
              = Inr (Image_new ''L'' (2, 2) 0)"
    by (simp add: empty_first_world_fields demo_open_alpha_def)
  have z2: "getbbox (Image_new ''L'' (2, 2) (0::nat)) = None"
    by (rule getbbox_Image_new_zero)
  have h2: "path_exists empty_first_world ?icns
       \<and> iconutil empty_first_world ''/usr/bin/iconutil'' ?icns None
           = Inr [(''icon_16x16.png'', [3])]
       \<and> select_largest_icon_png empty_first_world [(''icon_16x16.png'', [3])]
           = Inr (Some (''icon_16x16.png'', [3]))
       \<and> open_alpha empty_first_world (snd (''icon_16x16.png'', [3::8 word]))
           = Inr (Image_new ''L'' (2, 2) 0)
       \<and> getbbox (Image_new ''L'' (2, 2) (0::nat)) = None"
    by (intro conjI) (rule e2 i2 s2 o2 z2)+
  have c2: "fst (load_macos_rounded_shape_mask_candidate empty_first_world ''/usr/bin/iconutil''
            ?icns fresh_state) = Next_candidate (?icns @ '': extracted alpha mask is empty'')"
    using t2 [OF h2] by (rule conjunct1)
  have sz: "open_size mac_world [2] = Inr (3, 3)" "open_size mac_world [3] = Inr (2, 2)"
    by (simp_all add: mac_world_fields demo_open_size_def)
  show ?thesis
    by (intro conjI) (rule demo_select_largest sel sz c1 c2 empty_first_container)+
qed

subsection \<open>What a candidate loop records and runs\<close>




















subsection \<open>The fallback over the candidate lists\<close>



subsection \<open>Where a failure comes from\<close>












lemma broken_png_world_fields:
  "path_exists broken_png_world = (\<lambda>p. True)"
  "iconutil broken_png_world = demo_iconutil"
  "open_size broken_png_world = demo_open_size"
  "open_alpha broken_png_world = (\<lambda>b. Inl (OSError ''image file is truncated''))"
  by (simp_all add: broken_png_world_def mac_world_def)



lemma broken_select:
  "select_largest_icon_png broken_png_world demo_icns_listing
     = Inr (Some (''icon_32x32.png'', [2]))"
  by (simp add: select_largest_icon_png_def glob_png_def demo_icns_listing_def suffix_def
      broken_png_world_fields demo_open_size_def)

lemma broken_icns1:
  "fst (load_macos_rounded_shape_mask_candidate broken_png_world ip c t)
     = Raise (OSError ''image file is truncated'')"
  by (simp add: load_macos_rounded_shape_mask_candidate_def extract_iconset_from_icns_def
      TemporaryDirectory_def Let_def broken_png_world_fields demo_iconutil_def
      broken_select)


lemma broken_shape:
  "fst (load_macos_rounded_shape_mask broken_png_world ip s)
     = Inl (OSError ''image file is truncated'')"
  unfolding load_macos_rounded_shape_mask_def MACOS_ICON_ICNS_CANDIDATES_def
  by (simp only: icns_loop_raise [OF broken_icns1] fst_conv)



subsection \<open>Which failures are reported\<close>




end
